theory Spec2Isabelle
  imports Main
begin

section \<open>Python values and dictionaries\<close>

text \<open>
  A float is kept as the expression that computes it: a decimal literal, the conversion of
  an integer, the sum and the product of two doubles. Rounding is not modelled and two
  expressions are never identified, so nothing is said about the digits of a stored float:
  \<^verbatim>\<open>0.7 + 0.001 * 61\<close> is the double that Python computes for it, whatever it prints as.
\<close>

datatype pyfloat =
    Float_lit string
  | Float_of_int int
  | Float_add pyfloat pyfloat
  | Float_mul pyfloat pyfloat

text \<open>
  The values that flow through \<^verbatim>\<open>dspy/primitives/assertions.py\<close>: \<^verbatim>\<open>None\<close>, booleans,
  integers, floats and strings. \<^verbatim>\<open>isinstance(x, bool)\<close> holds for \<open>PBool\<close> only.
\<close>

datatype pyval = PNone | PBool bool | PInt int | PFloat pyfloat | PStr string

text \<open>
  A Python \<^verbatim>\<open>dict\<close> keeps insertion order, so it is an association list. Every operation
  below follows the Python one: assignment replaces the value of a present key in place and
  appends an absent one, \<^verbatim>\<open>pop(key, None)\<close> and \<^verbatim>\<open>del\<close> remove the key,
  \<^verbatim>\<open>update\<close> assigns entry after entry, \<^verbatim>\<open>setdefault\<close> only adds an absent key.
\<close>

type_synonym ('k, 'v) dict = "('k \<times> 'v) list"

definition dict_keys :: "('k, 'v) dict \<Rightarrow> 'k list" where
  "dict_keys d = map fst d"

definition dict_get :: "('k, 'v) dict \<Rightarrow> 'k \<Rightarrow> 'v option" where
  "dict_get d k = map_of d k"

fun dict_set :: "('k, 'v) dict \<Rightarrow> 'k \<Rightarrow> 'v \<Rightarrow> ('k, 'v) dict" where
  "dict_set [] k v = [(k, v)]"
| "dict_set ((k', v') # d) k v =
     (if k' = k then (k, v) # d else (k', v') # dict_set d k v)"

definition dict_pop :: "('k, 'v) dict \<Rightarrow> 'k \<Rightarrow> ('k, 'v) dict" where
  "dict_pop d k = filter (\<lambda>(k', v). k' \<noteq> k) d"

definition dict_update :: "('k, 'v) dict \<Rightarrow> ('k, 'v) dict \<Rightarrow> ('k, 'v) dict" where
  "dict_update d other = foldl (\<lambda>acc (k, v). dict_set acc k v) d other"

definition dict_setdefault :: "('k, 'v) dict \<Rightarrow> 'k \<Rightarrow> 'v \<Rightarrow> ('k, 'v) dict" where
  "dict_setdefault d k v = (if k \<in> set (dict_keys d) then d else d @ [(k, v)])"


section \<open>The execution trace and the exceptions\<close>

text \<open>
  A stage (a predictor object) is known by its identity. The trace \<^verbatim>\<open>dsp.settings.trace\<close>
  is the ordered list of \<^verbatim>\<open>(stage, inputs, outputs)\<close> records of the current run.
\<close>

type_synonym stage_ref = nat

type_synonym trace = "(stage_ref \<times> pyval \<times> pyval) list"

text \<open>
  \<^verbatim>\<open>DSPyAssertionError(msg, state)\<close> is the assertion failure; \<^verbatim>\<open>ValueError\<close> is what a
  non-boolean predicate result raises; \<^verbatim>\<open>UnboundLocalError\<close> is what Python raises when a
  local variable is read before any assignment; \<open>OtherException\<close> is any other exception.
\<close>

datatype exc =
    DSPyAssertionError (exc_msg: pyval) (exc_state: trace)
  | ValueError string
  | UnboundLocalError string
  | OtherException string


section \<open>Assert (lines 18-43)\<close>

text \<open>
  The predicate receives the positional and the keyword arguments and returns a value or
  raises. The object built by \<^verbatim>\<open>__init__\<close> has the four attributes of the source.
\<close>

type_synonym assert_fun_t = "pyval list \<Rightarrow> (string, pyval) dict \<Rightarrow> exc + pyval"

record assert_obj =
  assert_fun :: assert_fun_t
  args :: "pyval list"
  msg :: pyval
  kwargs :: "(string, pyval) dict"

text \<open>
  \<^verbatim>\<open>__call__\<close> (lines 35-43), given the trace \<^verbatim>\<open>dsp.settings.trace\<close> of that moment. The second
  component lists the invocations of the predicate with the arguments it was given.
\<close>

definition Assert_call ::
  "assert_obj \<Rightarrow> trace \<Rightarrow> (exc + pyval) \<times> (pyval list \<times> (string, pyval) dict) list" where
  "Assert_call self tr =
     (case assert_fun self (args self) (kwargs self) of
        Inl e \<Rightarrow> Inl e
      | Inr result \<Rightarrow>
          (case result of
             PBool b \<Rightarrow> if b then Inr (PBool True) else Inl (DSPyAssertionError (msg self) tr)
           | _ \<Rightarrow> Inl (ValueError ''Assertion function should always return [bool]'')),
      [(args self, kwargs self)])"

text \<open>
  \<^verbatim>\<open>__init__\<close> (lines 21-32): the attributes are set, \<^verbatim>\<open>msg\<close> is taken out of the keyword
  arguments, and the object is called at once. Construction yields the object or the exception.
\<close>

definition Assert_init ::
  "assert_fun_t \<Rightarrow> pyval list \<Rightarrow> (string, pyval) dict \<Rightarrow> trace
     \<Rightarrow> (exc + assert_obj) \<times> (pyval list \<times> (string, pyval) dict) list" where
  "Assert_init f as kw tr =
     (let self = \<lparr>assert_fun = f, args = as,
                  msg = (case dict_get kw ''msg'' of Some m \<Rightarrow> m | None \<Rightarrow> PStr ''''),
                  kwargs = (if ''msg'' \<in> set (dict_keys kw) then dict_pop kw ''msg'' else kw)\<rparr>
      in case Assert_call self tr of
           (Inl e, calls) \<Rightarrow> (Inl e, calls)
         | (Inr r, calls) \<Rightarrow> (Inr self, calls))"


section \<open>Stages: contract, entry point, configuration\<close>

text \<open>
  A field descriptor is a \<^verbatim>\<open>dspy.InputField\<close>, a \<^verbatim>\<open>dspy.OutputField\<close>, a \<^verbatim>\<open>dsp.Type\<close>, or a
  value of none of these classes; the source tells them apart with \<^verbatim>\<open>isinstance\<close>.
\<close>

datatype field =
    InputField (field_prefix: string) (field_desc: string)
  | OutputField (field_prefix: string) (field_desc: string)
  | DspType (field_prefix: string) (field_desc: string)
  | PlainValue pyval

record template =
  instructions :: string
  sig_kwargs :: "(string, field) dict"

text \<open>
  Modelled from the spec: the class \<^verbatim>\<open>dsp.Template\<close> is not part of the source file. The spec
  gives a contract as an ordered mapping of named fields to field descriptors; the constructor
  \<^verbatim>\<open>dsp.Template(instructions, **kwargs)\<close> keeps the instructions and the keyword arguments in
  their order (the attribute \<^verbatim>\<open>kwargs\<close> the source reads back).
\<close>

definition Template :: "string \<Rightarrow> (string, field) dict \<Rightarrow> template" where
  "Template instr kw = \<lparr>instructions = instr, sig_kwargs = kw\<rparr>"

text \<open>
  An entry point is the stage's own bound method or a closure \<^verbatim>\<open>new_forward\<close> built at
  lines 204-208, which holds its \<^verbatim>\<open>default_args\<close> and the entry point it delegates to.
\<close>

datatype forward =
    BoundForward stage_ref
  | NewForward (default_args: "(string, pyval) dict") (original_forward: forward)

record predictor =
  extended_signature :: template
  forward :: forward
  config :: "(string, pyval) dict"

text \<open>Stages are shared objects: the heap maps each identity to the object's attributes.\<close>

type_synonym heap = "stage_ref \<Rightarrow> predictor"

text \<open>\<^verbatim>\<open>_extend_predictor_signature\<close> (lines 167-188).\<close>

definition extend_predictor_signature ::
  "predictor \<Rightarrow> (string, field) dict \<Rightarrow> predictor" where
  "extend_predictor_signature p kw =
     (let old_signature = extended_signature p;
          kw1 = filter (\<lambda>(k, v). is_InputField v) (sig_kwargs old_signature);
          kw2 = dict_update kw1 kw;
          kw3 = dict_update kw2
                  (filter (\<lambda>(k, v). is_DspType v \<or> is_OutputField v) (sig_kwargs old_signature));
          new_signature = Template (instructions old_signature) kw3
      in p\<lparr>extended_signature := new_signature\<rparr>)"

text \<open>\<^verbatim>\<open>_revert_predictor_signature\<close> (lines 190-198): the named keys are popped one by one.\<close>

definition revert_predictor_signature :: "predictor \<Rightarrow> string list \<Rightarrow> predictor" where
  "revert_predictor_signature p keys =
     (let old_signature_kwargs = foldl dict_pop (sig_kwargs (extended_signature p)) keys;
          new_signature = Template (instructions (extended_signature p)) old_signature_kwargs
      in p\<lparr>extended_signature := new_signature\<rparr>)"

text \<open>\<^verbatim>\<open>_wrap_forward_with_set_fields\<close> (lines 200-210).\<close>

definition wrap_forward_with_set_fields ::
  "predictor \<Rightarrow> (string, pyval) dict \<Rightarrow> predictor" where
  "wrap_forward_with_set_fields p defaults =
     p\<lparr>forward := NewForward defaults (forward p)\<rparr>"

text \<open>
  Calling an entry point with keyword arguments: \<^verbatim>\<open>new_forward\<close> applies \<^verbatim>\<open>setdefault\<close> for
  each default and delegates; a bound method is run by the stage itself, which is outside this
  file and is the parameter \<open>run\<close>.
\<close>

fun call_forward ::
  "(stage_ref \<Rightarrow> (string, pyval) dict \<Rightarrow> 'r) \<Rightarrow> forward \<Rightarrow> (string, pyval) dict \<Rightarrow> 'r" where
  "call_forward run (BoundForward s) kw = run s kw"
| "call_forward run (NewForward defaults orig) kw =
     call_forward run orig (foldl (\<lambda>acc (arg, v). dict_setdefault acc arg v) kw defaults)"


section \<open>The ambient settings, the wrapped function, the diagnostics\<close>

text \<open>
  What the orchestrators read and write outside their own locals: the stage objects, the
  keyword settings of the language model \<^verbatim>\<open>dsp.settings.lm\<close>, and \<^verbatim>\<open>dsp.settings.trace\<close>.
\<close>

record world =
  stages :: heap
  settings_lm :: "(string, pyval) dict"
  settings_trace :: trace

text \<open>
  The wrapped function \<^verbatim>\<open>func(*args, **kwargs)\<close> is external. Its invocation on attempt
  \<open>i\<close>, in the world it finds, returns a value or raises, and leaves the trace of its run in
  \<^verbatim>\<open>dsp.settings.trace\<close>. It runs the stages through their entry points and does not
  assign their attributes.
\<close>

type_synonym pyfunc = "nat \<Rightarrow> world \<Rightarrow> (exc + pyval) \<times> trace"

text \<open>
  What an orchestrated call does, in order: each invocation of the wrapped function with its
  outcome, and each line printed.
\<close>

datatype event =
    Call nat "exc + pyval"
  | Print_msg pyval
  | Print_unreachable
  | Print_rewinding stage_ref
  | Print_prev_temp stage_ref pyval
  | Print_new_temp stage_ref pyval
  | Print_reverting stage_ref

text \<open>\<^verbatim>\<open>range(n)\<close> for a Python integer \<open>n\<close>: empty when \<open>n \<le> 0\<close>.\<close>

definition py_range :: "int \<Rightarrow> nat list" where
  "py_range n = [0..<nat n]"

text \<open>The lines printed by an \<^verbatim>\<open>except\<close> block for message \<open>m\<close> when the trace is \<open>tr\<close>.\<close>

definition except_prints :: "pyval \<Rightarrow> trace \<Rightarrow> event list" where
  "except_prints m tr = Print_msg m # (if tr \<noteq> [] then [] else [Print_unreachable])"


section \<open>Policy 1: assert_transform (lines 53-73)\<close>

text \<open>
  The \<^verbatim>\<open>for\<close> loop over the attempt indices. A return leaves the loop with the result, an
  assertion failure goes on with the next index, any other exception leaves \<^verbatim>\<open>inner\<close>;
  falling off the loop returns \<^verbatim>\<open>None\<close>.
\<close>

fun assert_transform_loop ::
  "pyfunc \<Rightarrow> nat list \<Rightarrow> world \<Rightarrow> (exc + pyval) \<times> world \<times> event list" where
  "assert_transform_loop func [] w = (Inr PNone, w, [])"
| "assert_transform_loop func (i # is) w =
     (case func i w of
        (Inr r, tr) \<Rightarrow> (Inr r, w\<lparr>settings_trace := tr\<rparr>, [Call i (Inr r)])
      | (Inl e, tr) \<Rightarrow>
          (case e of
             DSPyAssertionError m s \<Rightarrow>
               (case assert_transform_loop func is (w\<lparr>settings_trace := tr\<rparr>) of
                  (res, w', ev) \<Rightarrow> (res, w', Call i (Inl e) # except_prints m tr @ ev))
           | _ \<Rightarrow> (Inl e, w\<lparr>settings_trace := tr\<rparr>, [Call i (Inl e)])))"

definition assert_transform ::
  "int \<Rightarrow> pyfunc \<Rightarrow> world \<Rightarrow> (exc + pyval) \<times> world \<times> event list" where
  "assert_transform max_backtracks func w =
     assert_transform_loop func (py_range (max_backtracks + 1)) w"


section \<open>Policy 2: assert_update_transform (lines 76-106)\<close>

text \<open>
  The local variable \<^verbatim>\<open>backtrack_to\<close> of this \<^verbatim>\<open>inner\<close> is assigned in the \<^verbatim>\<open>except\<close> block
  only (line 98), so it is unbound until an attempt fails with a non-empty trace; reading an
  unbound local raises \<^verbatim>\<open>UnboundLocalError\<close>.
\<close>

datatype 'a local_var = Unbound | Bound 'a

text \<open>
  Modelled from the spec: \<^verbatim>\<open>lm.copy(temperature=t)\<close> is a method of the language model
  object, which is not part of the source file. The spec has it replace the randomization
  temperature of the active execution parameter set.
\<close>

definition lm_copy :: "(string, pyval) dict \<Rightarrow> pyval \<Rightarrow> (string, pyval) dict" where
  "lm_copy lm t = dict_set lm ''temperature'' t"

text \<open>The argument of line 87: the double \<^verbatim>\<open>0.71 + 0.002 * i\<close>.\<close>

definition update_temperature :: "nat \<Rightarrow> pyval" where
  "update_temperature i =
     PFloat (Float_add (Float_lit ''0.71'') (Float_mul (Float_lit ''0.002'') (Float_of_int (int i))))"

text \<open>
  Line 85 reads \<^verbatim>\<open>backtrack_to\<close> only when \<^verbatim>\<open>i > 0\<close> (\<^verbatim>\<open>and\<close> short-circuits). A bound value
  is an \<^verbatim>\<open>id\<close>, never \<^verbatim>\<open>None\<close>. The function runs inside \<^verbatim>\<open>dsp.settings.context\<close>, which holds
  the new model for the duration of the call only.
\<close>

fun assert_update_loop ::
  "pyfunc \<Rightarrow> nat list \<Rightarrow> stage_ref local_var \<Rightarrow> world
     \<Rightarrow> (exc + pyval) \<times> world \<times> event list" where
  "assert_update_loop func [] bt w = (Inr PNone, w, [])"
| "assert_update_loop func (i # is) bt w =
     (if i > 0 \<and> bt = Unbound then (Inl (UnboundLocalError ''backtrack_to''), w, [])
      else
        let lm = settings_lm w;
            lm' = (if i > 0 then lm_copy lm (update_temperature i) else lm)
        in case func i (w\<lparr>settings_lm := lm'\<rparr>) of
             (Inr r, tr) \<Rightarrow> (Inr r, w\<lparr>settings_trace := tr\<rparr>, [Call i (Inr r)])
           | (Inl e, tr) \<Rightarrow>
               (case e of
                  DSPyAssertionError m s \<Rightarrow>
                    (case assert_update_loop func is
                            (if tr \<noteq> [] then Bound (fst (last tr)) else bt)
                            (w\<lparr>settings_trace := tr\<rparr>) of
                       (res, w', ev) \<Rightarrow> (res, w', Call i (Inl e) # except_prints m tr @ ev))
                | _ \<Rightarrow> (Inl e, w\<lparr>settings_trace := tr\<rparr>, [Call i (Inl e)])))"

definition assert_update_transform ::
  "int \<Rightarrow> pyfunc \<Rightarrow> world \<Rightarrow> (exc + pyval) \<times> world \<times> event list" where
  "assert_update_transform max_backtracks func w =
     assert_update_loop func (py_range (max_backtracks + 1)) Unbound w"


section \<open>Policy 3: assert_latest_transform (lines 109-149)\<close>

text \<open>
  Modelled from the spec: \<^verbatim>\<open>update_config\<close> and \<^verbatim>\<open>get_config\<close> are methods of the stage,
  which is not part of the source file. The spec has them write and read the stage's
  configuration mapping (a pure read-modify-write of the named parameter).
\<close>

definition update_config :: "predictor \<Rightarrow> string \<Rightarrow> pyval \<Rightarrow> predictor" where
  "update_config p k v = p\<lparr>config := dict_set (config p) k v\<rparr>"

definition get_config :: "predictor \<Rightarrow> (string, pyval) dict" where
  "get_config p = config p"

text \<open>The blame of an \<^verbatim>\<open>except\<close> block (lines 140-145): the stage of the last trace entry,
  and the former value when the trace is empty.\<close>

definition blame :: "stage_ref option \<Rightarrow> trace \<Rightarrow> stage_ref option" where
  "blame bt tr = (if tr \<noteq> [] then Some (fst (last tr)) else bt)"

text \<open>The argument of line 131: the double \<^verbatim>\<open>0.7 + 0.001 * i\<close>.\<close>

definition latest_temperature :: "nat \<Rightarrow> pyval" where
  "latest_temperature i =
     PFloat (Float_add (Float_lit ''0.7'') (Float_mul (Float_lit ''0.001'') (Float_of_int (int i))))"

text \<open>
  Lines 123-134: the block run before attempt \<open>i\<close>. The subscript at line 133 reads the key
  that line 131 has just set, so it finds it; the \<open>None\<close> branch of \<open>new\<close> is never taken.
\<close>

definition latest_rewind :: "nat \<Rightarrow> stage_ref option \<Rightarrow> world \<Rightarrow> world \<times> event list" where
  "latest_rewind i bt w =
     (case bt of
        None \<Rightarrow> (w, [])
      | Some p \<Rightarrow>
          if i > 0 then
            let prev = (case dict_get (get_config (stages w p)) ''temperature'' of
                          Some t \<Rightarrow> t | None \<Rightarrow> PStr ''default'');
                h = (stages w)(p := update_config (stages w p) ''temperature''
                                      (latest_temperature i));
                new = (case dict_get (get_config (h p)) ''temperature'' of
                          Some t \<Rightarrow> t | None \<Rightarrow> PNone)
            in (w\<lparr>stages := h\<rparr>, [Print_rewinding p, Print_prev_temp p prev, Print_new_temp p new])
          else (w, []))"

fun assert_latest_loop ::
  "pyfunc \<Rightarrow> nat list \<Rightarrow> stage_ref option \<Rightarrow> world
     \<Rightarrow> (exc + pyval) \<times> world \<times> event list" where
  "assert_latest_loop func [] bt w = (Inr PNone, w, [])"
| "assert_latest_loop func (i # is) bt w =
     (case latest_rewind i bt w of
        (w1, ev1) \<Rightarrow>
          (case func i w1 of
             (Inr r, tr) \<Rightarrow> (Inr r, w1\<lparr>settings_trace := tr\<rparr>, ev1 @ [Call i (Inr r)])
           | (Inl e, tr) \<Rightarrow>
               (case e of
                  DSPyAssertionError m s \<Rightarrow>
                    (case assert_latest_loop func is (blame bt tr) (w1\<lparr>settings_trace := tr\<rparr>) of
                       (res, w', ev) \<Rightarrow>
                         (res, w', ev1 @ Call i (Inl e) # except_prints m tr @ ev))
                | _ \<Rightarrow> (Inl e, w1\<lparr>settings_trace := tr\<rparr>, ev1 @ [Call i (Inl e)]))))"

definition assert_latest_transform ::
  "int \<Rightarrow> pyfunc \<Rightarrow> world \<Rightarrow> (exc + pyval) \<times> world \<times> event list" where
  "assert_latest_transform max_backtracks func w =
     assert_latest_loop func (py_range (max_backtracks + 1)) None w"


section \<open>Policy 4: assert_latest_feedback_transform (lines 152-262)\<close>

text \<open>The locals of \<^verbatim>\<open>inner\<close> (lines 162-165).\<close>

record feedback_state =
  backtrack_to :: "stage_ref option"
  error_msg :: pyval
  result :: pyval
  extended_predictors_to_original_forward :: "(stage_ref, forward) dict"

text \<open>The feedback field built at lines 217-219.\<close>

definition feedback :: field where
  "feedback = InputField ''Instruction:'' ''Some instructions you must satisfy''"

text \<open>Lines 213-232: the block run before attempt \<open>i\<close>.\<close>

definition feedback_rewind ::
  "nat \<Rightarrow> feedback_state \<Rightarrow> world \<Rightarrow> feedback_state \<times> world \<times> event list" where
  "feedback_rewind i st w =
     (case backtrack_to st of
        None \<Rightarrow> (st, w, [])
      | Some p \<Rightarrow>
          if i > 0 then
            let saved = dict_set (extended_predictors_to_original_forward st) p
                          (forward (stages w p));
                h1 = (stages w)(p := extend_predictor_signature (stages w p)
                                        [(''feedback'', feedback)]);
                h2 = h1(p := wrap_forward_with_set_fields (h1 p)
                                [(''feedback'', error_msg st)])
            in (st\<lparr>extended_predictors_to_original_forward := saved\<rparr>,
                w\<lparr>stages := h2\<rparr>, [Print_rewinding p])
          else (st, w, []))"

text \<open>
  Lines 212-246. The first component tells how the loop was left: \<open>None\<close> by \<^verbatim>\<open>break\<close> or by
  running out of indices, \<open>Some e\<close> by an exception that is not caught.
\<close>

fun feedback_loop ::
  "pyfunc \<Rightarrow> nat list \<Rightarrow> feedback_state \<Rightarrow> world
     \<Rightarrow> exc option \<times> feedback_state \<times> world \<times> event list" where
  "feedback_loop func [] st w = (None, st, w, [])"
| "feedback_loop func (i # is) st w =
     (case feedback_rewind i st w of
        (st1, w1, ev1) \<Rightarrow>
          (case func i w1 of
             (Inr r, tr) \<Rightarrow>
               (None, st1\<lparr>result := r\<rparr>, w1\<lparr>settings_trace := tr\<rparr>, ev1 @ [Call i (Inr r)])
           | (Inl e, tr) \<Rightarrow>
               (case e of
                  DSPyAssertionError m s \<Rightarrow>
                    (case feedback_loop func is
                            (st1\<lparr>error_msg := m, backtrack_to := blame (backtrack_to st1) tr\<rparr>)
                            (w1\<lparr>settings_trace := tr\<rparr>) of
                       (x, st', w', ev) \<Rightarrow>
                         (x, st', w', ev1 @ Call i (Inl e) # except_prints m tr @ ev))
                | _ \<Rightarrow> (Some e, st1, w1\<lparr>settings_trace := tr\<rparr>, ev1 @ [Call i (Inl e)]))))"

text \<open>Lines 249-256: the saved entries are gone through in insertion order.\<close>

fun revert_extended :: "(stage_ref, forward) dict \<Rightarrow> heap \<Rightarrow> heap \<times> event list" where
  "revert_extended [] h = (h, [])"
| "revert_extended ((p, orig) # rest) h =
     (let h1 = h(p := revert_predictor_signature (h p) [''feedback'']);
          h2 = h1(p := (h1 p)\<lparr>forward := orig\<rparr>)
      in case revert_extended rest h2 of (h', ev) \<Rightarrow> (h', Print_reverting p # ev))"

text \<open>
  \<^verbatim>\<open>inner\<close>: an exception that leaves the loop leaves \<^verbatim>\<open>inner\<close> at once (there is no
  \<^verbatim>\<open>finally\<close>); otherwise the saved stages are reverted and \<^verbatim>\<open>result\<close> is returned.
\<close>

definition assert_latest_feedback_transform ::
  "int \<Rightarrow> pyfunc \<Rightarrow> world \<Rightarrow> (exc + pyval) \<times> world \<times> event list" where
  "assert_latest_feedback_transform max_backtracks func w =
     (case feedback_loop func (py_range (max_backtracks + 1))
             \<lparr>backtrack_to = None, error_msg = PNone, result = PNone,
              extended_predictors_to_original_forward = []\<rparr> w of
        (Some e, st, w', ev) \<Rightarrow> (Inl e, w', ev)
      | (None, st, w', ev) \<Rightarrow>
          (case revert_extended (extended_predictors_to_original_forward st) (stages w') of
             (h, ev2) \<Rightarrow> (Inr (result st), w'\<lparr>stages := h\<rparr>, ev @ ev2)))"


section \<open>The four policies and what a run shows\<close>

text \<open>The module exposes one decorator per policy.\<close>

datatype policy = Blind_retry | Global_perturbation | Targeted_perturbation | Targeted_feedback

fun orchestrate ::
  "policy \<Rightarrow> int \<Rightarrow> pyfunc \<Rightarrow> world \<Rightarrow> (exc + pyval) \<times> world \<times> event list" where
  "orchestrate Blind_retry = assert_transform"
| "orchestrate Global_perturbation = assert_update_transform"
| "orchestrate Targeted_perturbation = assert_latest_transform"
| "orchestrate Targeted_feedback = assert_latest_feedback_transform"

text \<open>The invocations of the wrapped function among the events: attempt index and outcome.\<close>

fun call_of :: "event \<Rightarrow> (nat \<times> (exc + pyval)) list" where
  "call_of (Call i r) = [(i, r)]"
| "call_of _ = []"

definition calls :: "event list \<Rightarrow> (nat \<times> (exc + pyval)) list" where
  "calls ev = concat (map call_of ev)"

text \<open>
  The loop as the spec words it, over the attempt indices still to run: the invocations are
  made in index order; a return ends the run with that result, an assertion failure leads to
  the next index, any other exception ends the run with that exception; when the indices
  are used up the result is \<^verbatim>\<open>None\<close>.
\<close>

fun attempts_spec ::
  "nat list \<Rightarrow> (nat \<times> (exc + pyval)) list \<Rightarrow> (exc + pyval) \<Rightarrow> bool" where
  "attempts_spec [] cs res = (cs = [] \<and> res = Inr PNone)"
| "attempts_spec (i # is) [] res = False"
| "attempts_spec (i # is) ((j, out) # cs) res =
     (j = i \<and>
      (case out of
         Inr r \<Rightarrow> cs = [] \<and> res = Inr r
       | Inl e \<Rightarrow> if is_DSPyAssertionError e then attempts_spec is cs res
                  else cs = [] \<and> res = Inl e))"

text \<open>
  The same shape without the last promise: the run may end before the indices are used up,
  with any result.
\<close>

fun retry_log ::
  "nat list \<Rightarrow> (nat \<times> (exc + pyval)) list \<Rightarrow> (exc + pyval) \<Rightarrow> bool" where
  "retry_log is [] res = True"
| "retry_log [] (c # cs) res = False"
| "retry_log (i # is) ((j, out) # cs) res =
     (j = i \<and>
      (case out of
         Inr r \<Rightarrow> cs = [] \<and> res = Inr r
       | Inl e \<Rightarrow> if is_DSPyAssertionError e then retry_log is cs res
                  else cs = [] \<and> res = Inl e))"


section \<open>Concrete stages, pipelines and predicates\<close>

text \<open>A contract with one input and one output field, and a world whose stages all have it.\<close>

definition qa_contract :: template where
  "qa_contract = Template ''Answer the question.''
     [(''question'', InputField ''Question:'' ''the question''),
      (''answer'', OutputField ''Answer:'' ''the answer'')]"

definition fresh_world :: world where
  "fresh_world =
     \<lparr>stages = (\<lambda>p. \<lparr>extended_signature = qa_contract, forward = BoundForward p, config = []\<rparr>),
      settings_lm = [], settings_trace = []\<rparr>"

text \<open>A world whose stages already have an input field named \<^verbatim>\<open>feedback\<close>.\<close>

definition clash_world :: world where
  "clash_world =
     \<lparr>stages = (\<lambda>p. \<lparr>extended_signature = Template ''Revise the answer.''
                        [(''feedback'', InputField ''Hint:'' ''a hint''),
                         (''answer'', OutputField ''Answer:'' ''the answer'')],
                     forward = BoundForward p, config = []\<rparr>),
      settings_lm = [], settings_trace = []\<rparr>"

text \<open>The trace of a run of stage 0 and then stage 1.\<close>

definition example_trace :: trace where
  "example_trace = [(0, PStr ''q'', PStr ''a''), (1, PStr ''a'', PStr ''b'')]"

text \<open>Attempts 0 and 1 fail their assertion after stage 1 ran last; attempt 2 returns.\<close>

definition fails_twice :: pyfunc where
  "fails_twice i w =
     (if i = 0 then (Inl (DSPyAssertionError (PStr ''too long'') example_trace), example_trace)
      else if i = 1 then
        (Inl (DSPyAssertionError (PStr ''still too long'') example_trace), example_trace)
      else (Inr (PStr ''b''), example_trace))"

text \<open>Attempt 0 fails its assertion after stage 1 ran last; attempt 1 raises a \<^verbatim>\<open>KeyError\<close>.\<close>

definition fails_then_crashes :: pyfunc where
  "fails_then_crashes i w =
     (if i = 0 then (Inl (DSPyAssertionError (PStr ''too long'') example_trace), example_trace)
      else (Inl (OtherException ''KeyError''), example_trace))"

text \<open>Every attempt fails its assertion while the trace is empty.\<close>

definition always_fails_without_trace :: pyfunc where
  "always_fails_without_trace i w = (Inl (DSPyAssertionError (PStr ''too long'') []), [])"

text \<open>Attempt 0 fails its assertion while the trace is empty; a later attempt would return.\<close>

definition fails_once_without_trace :: pyfunc where
  "fails_once_without_trace i w =
     (if i = 0 then (Inl (DSPyAssertionError (PStr ''too long'') []), [])
      else (Inr (PStr ''b''), [(0, PStr ''q'', PStr ''b'')]))"

text \<open>
  Attempt 0 fails after stage 1 ran last, attempt 1 fails while the trace is empty,
  attempt 2 returns.
\<close>

definition fails_then_fails_without_trace :: pyfunc where
  "fails_then_fails_without_trace i w =
     (if i = 0 then (Inl (DSPyAssertionError (PStr ''too long'') example_trace), example_trace)
      else if i = 1 then (Inl (DSPyAssertionError (PStr ''still too long'') []), [])
      else (Inr (PStr ''b''), example_trace))"

text \<open>
  A predicate on one positional argument: a string is checked for its length, a number is
  handed back as it is (not a boolean), anything else raises.
\<close>

definition short_enough :: assert_fun_t where
  "short_enough as kw =
     (case as of
        [PStr s] \<Rightarrow> Inr (PBool (length s \<le> 3))
      | [PInt n] \<Rightarrow> Inr (PInt n)
      | _ \<Rightarrow> Inl (OtherException ''TypeError''))"

text \<open>
  A pipeline that constructs an \<^verbatim>\<open>Assert\<close> on its output: attempt 0 checks a long string,
  a later attempt hands the predicate a number.
\<close>

definition fails_then_invalid :: pyfunc where
  "fails_then_invalid i w =
     (case fst (Assert_init short_enough [if i = 0 then PStr ''long answer'' else PInt 7]
                  [(''msg'', PStr ''too long'')] example_trace) of
        Inl e \<Rightarrow> (Inl e, example_trace)
      | Inr a \<Rightarrow> (Inr (PStr ''b''), example_trace))"


text \<open>
  A predicate with one positional parameter and the keyword parameter \<^verbatim>\<open>limit\<close>. Like a Python
  function that has no \<^verbatim>\<open>msg\<close> parameter, it raises \<^verbatim>\<open>TypeError\<close> when it is handed any other
  keyword.
\<close>

definition within_limit :: assert_fun_t where
  "within_limit as kw =
     (case (as, kw) of
        ([PStr s], [(k, PInt n)]) \<Rightarrow>
          if k = ''limit'' then Inr (PBool (int (length s) \<le> n))
          else Inl (OtherException ''TypeError'')
      | _ \<Rightarrow> Inl (OtherException ''TypeError''))"

text \<open>The temperature a pipeline finds in the configuration of stage \<open>p\<close>.\<close>

definition temperature_seen :: "world \<Rightarrow> stage_ref \<Rightarrow> pyval" where
  "temperature_seen w p =
     (case dict_get (get_config (stages w p)) ''temperature'' of
        Some t \<Rightarrow> t | None \<Rightarrow> PStr ''default'')"

text \<open>
  A pipeline whose every attempt fails its assertion and whose trace records, as the inputs
  of stages 0 and 1, the temperature it finds on each: attempt 0 stops after stage 0,
  attempt 2 fails while the trace is empty, the other attempts run both stages.
\<close>

definition reports_temperatures :: pyfunc where
  "reports_temperatures i w =
     (let full = [(0, temperature_seen w 0, PStr ''a''), (1, temperature_seen w 1, PStr ''b'')];
          tr = (if i = 0 then take 1 full else if i = 2 then [] else full)
      in (Inl (DSPyAssertionError (PStr ''too long'') tr), tr))"

text \<open>
  The \<^verbatim>\<open>feedback\<close> keyword that the own method of stage \<open>p\<close> receives when the pipeline
  invokes the stage through its entry point with the question only.
\<close>

definition feedback_seen :: "world \<Rightarrow> stage_ref \<Rightarrow> pyval" where
  "feedback_seen w p =
     (case dict_get (call_forward (\<lambda>s a. a) (forward (stages w p)) [(''question'', PStr ''q'')])
             ''feedback'' of
        Some v \<Rightarrow> v | None \<Rightarrow> PNone)"

text \<open>
  A pipeline whose every attempt fails its assertion, each time with another message, and
  whose trace records, as the inputs of stages 0 and 1, the feedback each stage received.
\<close>

definition reports_feedback :: pyfunc where
  "reports_feedback i w =
     (let tr = [(0, feedback_seen w 0, PStr ''a''), (1, feedback_seen w 1, PStr ''b'')];
          m = (if i = 0 then ''too long'' else if i = 1 then ''still too long''
               else ''much too long'')
      in (Inl (DSPyAssertionError (PStr m) tr), tr))"

text \<open>
  A pipeline whose attempt 0 fails after stage 1 ran last and whose later attempts return
  the prefix of the field named \<^verbatim>\<open>feedback\<close> that they find in the contract of stage 1.
\<close>

definition reports_feedback_field :: pyfunc where
  "reports_feedback_field i w =
     (if i = 0 then (Inl (DSPyAssertionError (PStr ''too long'') example_trace), example_trace)
      else (Inr (case dict_get (sig_kwargs (extended_signature (stages w 1))) ''feedback'' of
                   Some f \<Rightarrow> PStr (field_prefix f) | None \<Rightarrow> PNone),
            example_trace))"


section \<open>Dictionary facts\<close>

lemma dict_pop_absent: "k \<notin> set (dict_keys d) \<Longrightarrow> dict_pop d k = d"
  by (induction d) (auto simp: dict_pop_def dict_keys_def)

lemma kwargs_without_msg:
  "(if ''msg'' \<in> set (dict_keys kw) then dict_pop kw ''msg'' else kw) = dict_pop kw ''msg''"
  by (simp add: dict_pop_absent)

lemma dict_get_pop_other: "k' \<noteq> k \<Longrightarrow> dict_get (dict_pop d k) k' = dict_get d k'"
  by (induction d) (auto simp: dict_pop_def dict_get_def)

lemma foldl_dict_pop_filter: "foldl dict_pop d ks = filter (\<lambda>(k, v). k \<notin> set ks) d"
  by (induction ks arbitrary: d) (auto simp: dict_pop_def intro: filter_cong)

lemma dict_get_set_same: "dict_get (dict_set d k v) k = Some v"
  by (induction d) (auto simp: dict_get_def)

lemma dict_get_set_other: "k' \<noteq> k \<Longrightarrow> dict_get (dict_set d k v) k' = dict_get d k'"
  by (induction d) (auto simp: dict_get_def)

lemma dict_set_absent: "k \<notin> set (dict_keys d) \<Longrightarrow> dict_set d k v = d @ [(k, v)]"
  by (induction d) (auto simp: dict_keys_def)

lemma dict_update_Cons: "dict_update d ((k, v) # other) = dict_update (dict_set d k v) other"
  by (simp add: dict_update_def)

text \<open>Updating with entries whose keys are new appends them in their order.\<close>

lemma dict_update_disjoint:
  "distinct (dict_keys other) \<Longrightarrow> set (dict_keys other) \<inter> set (dict_keys d) = {} \<Longrightarrow>
   dict_update d other = d @ other"
proof (induction other arbitrary: d)
  case Nil
  then show ?case by (simp add: dict_update_def)
next
  case (Cons a other)
  obtain k v where a: "a = (k, v)" by (cases a)
  have k: "k \<notin> set (dict_keys d)" using Cons.prems(2) a by (auto simp: dict_keys_def)
  have d: "distinct (dict_keys other)" using Cons.prems(1) by (simp add: dict_keys_def)
  have i: "set (dict_keys other) \<inter> set (dict_keys (d @ [(k, v)])) = {}"
    using Cons.prems a by (auto simp: dict_keys_def)
  have "dict_update d (a # other) = dict_update (d @ [(k, v)]) other"
    by (simp add: a dict_update_Cons dict_set_absent[OF k])
  also have "\<dots> = (d @ [(k, v)]) @ other" by (rule Cons.IH[OF d i])
  finally show ?case by (simp add: a)
qed

text \<open>A lookup after an update: the last assignment to the key wins.\<close>

lemma dict_get_update:
  "dict_get (dict_update d other) k =
     (case map_of (rev other) k of Some v \<Rightarrow> Some v | None \<Rightarrow> dict_get d k)"
proof (induction other arbitrary: d)
  case Nil
  then show ?case by (simp add: dict_update_def)
next
  case (Cons a other)
  obtain k' v' where a: "a = (k', v')" by (cases a)
  show ?case
    by (simp add: a dict_update_Cons Cons.IH map_add_def dict_get_set_same dict_get_set_other
             split: option.splits)
qed

lemma map_of_rev_distinct:
  "distinct (map fst xs) \<Longrightarrow> map_of (rev xs) k = map_of xs k"
proof (cases "map_of xs k")
  case None
  then have "k \<notin> fst ` set xs" by (simp add: map_of_eq_None_iff)
  then have "map_of (rev xs) k = None" by (simp add: map_of_eq_None_iff)
  with None show ?thesis by simp
next
  case (Some v)
  assume d: "distinct (map fst xs)"
  then have d': "distinct (map fst (rev xs))" by (simp add: rev_map[symmetric])
  from Some d have "(k, v) \<in> set (rev xs)" by simp
  with d' have "map_of (rev xs) k = Some v" by (simp only: map_of_eq_Some_iff)
  with Some show ?thesis by simp
qed

lemma map_of_filter_value:
  "distinct (dict_keys d) \<Longrightarrow>
   map_of (filter (\<lambda>(k, v). P v) d) k =
     (case map_of d k of Some v \<Rightarrow> if P v then Some v else None | None \<Rightarrow> None)"
  by (induction d) (auto simp: dict_keys_def map_of_eq_None_iff image_iff split: option.splits)

lemma distinct_keys_filter: "distinct (dict_keys d) \<Longrightarrow> distinct (dict_keys (filter P d))"
  by (simp add: dict_keys_def distinct_map_filter)

lemma dict_get_setdefault:
  "dict_get (dict_setdefault kw k v) k = Some (case dict_get kw k of Some x \<Rightarrow> x | None \<Rightarrow> v)"
proof (cases "k \<in> set (dict_keys kw)")
  case True
  then have "map_of kw k \<noteq> None" by (simp add: dict_keys_def map_of_eq_None_iff)
  then obtain x where "map_of kw k = Some x" by blast
  with True show ?thesis by (simp add: dict_setdefault_def dict_get_def)
next
  case False
  then have "map_of kw k = None" by (simp add: dict_keys_def map_of_eq_None_iff)
  with False show ?thesis by (simp add: dict_setdefault_def dict_get_def map_add_def)
qed

lemma dict_get_setdefault_keep:
  "dict_get kw k = Some x \<Longrightarrow> dict_get (dict_setdefault kw k' v) k = Some x"
  by (auto simp: dict_setdefault_def dict_get_def map_add_def split: option.splits)

lemma foldl_setdefault_keep:
  "dict_get kw k = Some x \<Longrightarrow>
   dict_get (foldl (\<lambda>acc (arg, v). dict_setdefault acc arg v) kw ds) k = Some x"
  by (induction ds arbitrary: kw) (auto simp: dict_get_setdefault_keep)

text \<open>A keyword argument that is present reaches the bound method through any wrappers.\<close>

lemma call_forward_keep:
  "dict_get kw k = Some x \<Longrightarrow> dict_get (call_forward (\<lambda>s a. a) g kw) k = Some x"
  by (induction g arbitrary: kw) (auto simp: foldl_setdefault_keep)


section \<open>The contract after an extension\<close>

lemma extend_lookup:
  assumes d: "distinct (dict_keys (sig_kwargs (extended_signature p)))"
  shows "dict_get (sig_kwargs (extended_signature
                     (extend_predictor_signature p [(''feedback'', fld)]))) k =
     (case dict_get (sig_kwargs (extended_signature p)) k of
        Some v \<Rightarrow> if is_DspType v \<or> is_OutputField v then Some v
                  else if k = ''feedback'' then Some fld
                  else if is_InputField v then Some v else None
      | None \<Rightarrow> if k = ''feedback'' then Some fld else None)"
proof -
  let ?c = "sig_kwargs (extended_signature p)"
  let ?outs = "filter (\<lambda>(k, v). is_DspType v \<or> is_OutputField v) ?c"
  let ?ins = "filter (\<lambda>(k, v). is_InputField v) ?c"
  have douts: "distinct (map fst ?outs)"
    using distinct_keys_filter[OF d] by (simp add: dict_keys_def)
  have outs: "map_of (rev ?outs) k =
      (case map_of ?c k of
         Some v \<Rightarrow> if is_DspType v \<or> is_OutputField v then Some v else None
       | None \<Rightarrow> None)"
    by (simp only: map_of_rev_distinct[OF douts] map_of_filter_value[OF d])
  have ins: "dict_get ?ins k =
      (case map_of ?c k of Some v \<Rightarrow> if is_InputField v then Some v else None | None \<Rightarrow> None)"
    by (simp only: dict_get_def map_of_filter_value[OF d])
  have upd: "dict_get (sig_kwargs (extended_signature
                         (extend_predictor_signature p [(''feedback'', fld)]))) k =
      (case map_of (rev ?outs) k of Some v \<Rightarrow> Some v
       | None \<Rightarrow> if k = ''feedback'' then Some fld else dict_get ?ins k)"
    by (auto simp: extend_predictor_signature_def Let_def Template_def dict_get_update
          dict_update_Cons dict_get_set_same dict_get_set_other dict_update_def[of _ "[]"]
          split: option.splits)
  show ?thesis
    unfolding upd outs ins dict_get_def[of ?c]
    by (auto split: option.splits)
qed


text \<open>
  With distinct field names and no field named \<^verbatim>\<open>feedback\<close>: the input fields in their
  order, the new field, the output fields in their order.
\<close>

lemma extend_predictor_signature_fresh:
  assumes dist: "distinct (dict_keys (sig_kwargs (extended_signature p)))"
    and fresh: "''feedback'' \<notin> set (dict_keys (sig_kwargs (extended_signature p)))"
  shows "sig_kwargs (extended_signature (extend_predictor_signature p [(''feedback'', fld)])) =
           filter (\<lambda>(k, v). is_InputField v) (sig_kwargs (extended_signature p))
           @ [(''feedback'', fld)]
           @ filter (\<lambda>(k, v). is_DspType v \<or> is_OutputField v)
               (sig_kwargs (extended_signature p))"
proof -
  let ?c = "sig_kwargs (extended_signature p)"
  let ?ins = "filter (\<lambda>(k, v). is_InputField v) ?c"
  let ?outs = "filter (\<lambda>(k, v). is_DspType v \<or> is_OutputField v) ?c"
  have f1: "''feedback'' \<notin> set (dict_keys ?ins)" using fresh by (auto simp: dict_keys_def)
  have s1: "dict_update ?ins [(''feedback'', fld)] = ?ins @ [(''feedback'', fld)]"
    by (simp add: dict_update_Cons dict_set_absent[OF f1] dict_update_def[of _ "[]"])
  have dj: "set (dict_keys ?outs) \<inter> set (dict_keys (?ins @ [(''feedback'', fld)])) = {}"
  proof -
    have "k \<notin> set (dict_keys ?ins)" if "k \<in> set (dict_keys ?outs)" for k
    proof -
      from that obtain v where kv: "(k, v) \<in> set ?c" "is_DspType v \<or> is_OutputField v"
        by (auto simp: dict_keys_def)
      show ?thesis
      proof
        assume "k \<in> set (dict_keys ?ins)"
        then obtain v' where kv': "(k, v') \<in> set ?c" "is_InputField v'"
          by (auto simp: dict_keys_def)
        from dist kv(1) kv'(1) have "v = v'"
          by (metis dict_keys_def map_of_eq_Some_iff option.inject)
        with kv(2) kv'(2) show False by (cases v) auto
      qed
    qed
    moreover have "''feedback'' \<notin> set (dict_keys ?outs)"
      using fresh by (auto simp: dict_keys_def)
    ultimately show ?thesis by (auto simp: dict_keys_def)
  qed
  have "sig_kwargs (extended_signature (extend_predictor_signature p [(''feedback'', fld)]))
          = dict_update (?ins @ [(''feedback'', fld)]) ?outs"
    by (simp add: extend_predictor_signature_def Let_def Template_def s1)
  also have "\<dots> = (?ins @ [(''feedback'', fld)]) @ ?outs"
    by (rule dict_update_disjoint[OF distinct_keys_filter[OF dist] dj])
  finally show ?thesis by simp
qed


section \<open>The shape of a run\<close>

lemma calls_Nil [simp]: "calls [] = []"
  by (simp add: calls_def)

lemma calls_Cons [simp]: "calls (e # ev) = call_of e @ calls ev"
  by (simp add: calls_def)

lemma calls_append [simp]: "calls (a @ b) = calls a @ calls b"
  by (simp add: calls_def)

lemma calls_except_prints [simp]: "calls (except_prints m tr) = []"
  by (simp add: except_prints_def)

lemma calls_latest_rewind [simp]: "latest_rewind i bt w = (w1, ev1) \<Longrightarrow> calls ev1 = []"
  by (auto simp: latest_rewind_def Let_def split: option.splits if_splits)

lemma calls_feedback_rewind [simp]:
  "feedback_rewind i st w = (st1, w1, ev1) \<Longrightarrow> calls ev1 = []"
  by (auto simp: feedback_rewind_def Let_def split: option.splits if_splits)

lemma calls_revert_extended [simp]: "revert_extended d h = (h', ev) \<Longrightarrow> calls ev = []"
  by (induction d arbitrary: h h' ev) (auto simp: Let_def split: prod.splits)

lemma feedback_rewind_result:
  "feedback_rewind i st w = (st1, w1, ev1) \<Longrightarrow> result st1 = result st"
  by (auto simp: feedback_rewind_def Let_def split: option.splits if_splits)

text \<open>Each of the four loops makes its invocations in the shape \<open>retry_log\<close>.\<close>

lemma assert_transform_loop_log:
  "assert_transform_loop func is w = (res, w', ev) \<Longrightarrow> retry_log is (calls ev) res"
  by (induction "is" arbitrary: w res w' ev) (auto split: prod.splits sum.splits exc.splits)

lemma assert_update_loop_log:
  "assert_update_loop func is bt w = (res, w', ev) \<Longrightarrow> retry_log is (calls ev) res"
  by (induction "is" arbitrary: bt w res w' ev)
     (auto simp: Let_def split: prod.splits sum.splits exc.splits if_splits)

lemma assert_latest_loop_log:
  "assert_latest_loop func is bt w = (res, w', ev) \<Longrightarrow> retry_log is (calls ev) res"
  by (induction "is" arbitrary: bt w res w' ev) (auto split: prod.splits sum.splits exc.splits)

lemma feedback_loop_log:
  "feedback_loop func is st w = (x, st', w', ev) \<Longrightarrow>
     retry_log is (calls ev) (case x of Some e \<Rightarrow> Inl e | None \<Rightarrow> Inr (result st'))"
  by (induction "is" arbitrary: st w x st' w' ev)
     (auto split: prod.splits sum.splits exc.splits)

lemma orchestrate_log:
  assumes run: "orchestrate pol mb func w = (res, w', ev)"
  shows "retry_log (py_range (mb + 1)) (calls ev) res"
proof (cases pol)
  case Blind_retry
  with run show ?thesis by (auto simp: assert_transform_def dest: assert_transform_loop_log)
next
  case Global_perturbation
  with run show ?thesis by (auto simp: assert_update_transform_def dest: assert_update_loop_log)
next
  case Targeted_perturbation
  with run show ?thesis by (auto simp: assert_latest_transform_def dest: assert_latest_loop_log)
next
  case Targeted_feedback
  with run show ?thesis
    by (auto simp: assert_latest_feedback_transform_def split: prod.splits option.splits
             dest!: feedback_loop_log)
qed

text \<open>What the shape gives: an attempt that does not fail its assertion is the last one.\<close>

lemma retry_log_stop:
  "retry_log is cs res \<Longrightarrow> (i, out) \<in> set cs \<Longrightarrow>
   (case out of Inr r \<Rightarrow> True | Inl e \<Rightarrow> \<not> is_DSPyAssertionError e) \<Longrightarrow>
   res = out \<and> last cs = (i, out)"
  by (induction "is" cs res rule: retry_log.induct) (auto split: sum.splits if_splits)

lemma retry_log_indices: "retry_log is cs res \<Longrightarrow> map fst cs = take (length cs) is"
  by (induction "is" cs res rule: retry_log.induct) (auto split: sum.splits if_splits)

lemma retry_log_length: "retry_log is cs res \<Longrightarrow> length cs \<le> length is"
  by (induction "is" cs res rule: retry_log.induct) (auto split: sum.splits if_splits)

lemma retry_log_count:
  assumes "retry_log [0..<n] cs res" "(i, out) \<in> set cs" "last cs = (i, out)"
  shows "length cs = i + 1"
proof -
  from assms(2) have ne: "cs \<noteq> []" by auto
  have le: "length cs \<le> n" using retry_log_length[OF assms(1)] by simp
  have "map fst cs = take (length cs) [0..<n]" by (rule retry_log_indices[OF assms(1)])
  then have "map fst cs = [0..<length cs]" using le by (simp add: take_upt)
  then have "fst (last cs) = last [0..<length cs]" using ne by (metis last_map)
  with ne assms(3) show ?thesis by (cases "length cs") auto
qed

text \<open>
  Policies 1, 3 and 4 run their attempts as the spec words the loop: at most
  \<open>max_backtracks + 1\<close> invocations, the first return is the result, and \<^verbatim>\<open>None\<close> when every
  attempt fails its assertion.
\<close>

lemma attempts_spec_length: "attempts_spec is cs res \<Longrightarrow> length cs \<le> length is"
  by (induction "is" cs res rule: attempts_spec.induct) (auto split: sum.splits if_splits)

lemma assert_transform_loop_spec:
  "assert_transform_loop func is w = (res, w', ev) \<Longrightarrow> attempts_spec is (calls ev) res"
  by (induction "is" arbitrary: w res w' ev) (auto split: prod.splits sum.splits exc.splits)

lemma assert_latest_loop_spec:
  "assert_latest_loop func is bt w = (res, w', ev) \<Longrightarrow> attempts_spec is (calls ev) res"
  by (induction "is" arbitrary: bt w res w' ev) (auto split: prod.splits sum.splits exc.splits)

lemma feedback_loop_spec:
  "feedback_loop func is st w = (x, st', w', ev) \<Longrightarrow> result st = PNone \<Longrightarrow>
     attempts_spec is (calls ev) (case x of Some e \<Rightarrow> Inl e | None \<Rightarrow> Inr (result st'))"
proof (induction "is" arbitrary: st w x st' w' ev)
  case Nil
  then show ?case by simp
next
  case (Cons i "is")
  obtain st1 w1 ev1 where rw: "feedback_rewind i st w = (st1, w1, ev1)"
    by (cases "feedback_rewind i st w") auto
  have r1: "result st1 = PNone"
    using feedback_rewind_result[OF rw] Cons.prems(2) by simp
  have c1: "calls ev1 = []" using rw by simp
  show ?case
    using Cons.prems(1) rw r1 c1 Cons.IH
    by (auto split: prod.splits sum.splits exc.splits)
qed

lemma orchestrate_attempts_spec:
  assumes run: "orchestrate pol mb func w = (res, w', ev)"
    and pol: "pol \<noteq> Global_perturbation"
  shows "attempts_spec (py_range (mb + 1)) (calls ev) res"
proof (cases pol)
  case Blind_retry
  with run show ?thesis by (auto simp: assert_transform_def dest: assert_transform_loop_spec)
next
  case Global_perturbation
  with pol show ?thesis by simp
next
  case Targeted_perturbation
  with run show ?thesis by (auto simp: assert_latest_transform_def dest: assert_latest_loop_spec)
next
  case Targeted_feedback
  with run show ?thesis
    by (auto simp: assert_latest_feedback_transform_def split: prod.splits option.splits
             dest!: feedback_loop_spec)
qed

text \<open>The definitions a concrete run unfolds.\<close>

lemmas run_defs =
  assert_latest_feedback_transform_def assert_latest_transform_def assert_update_transform_def
  assert_transform_def py_range_def fresh_world_def clash_world_def qa_contract_def
  example_trace_def feedback_rewind_def latest_rewind_def blame_def
  extend_predictor_signature_def wrap_forward_with_set_fields_def
  revert_predictor_signature_def dict_update_def dict_pop_def Template_def feedback_def
  except_prints_def update_config_def get_config_def lm_copy_def dict_get_def Let_def upt_rec


section \<open>Assert\<close>

text \<open>
  Claim C6. Constructing an \<^verbatim>\<open>Assert\<close> invokes the predicate exactly once, during construction,
  on the positional arguments and the keyword arguments without \<^verbatim>\<open>msg\<close>. When the predicate
  returns \<^verbatim>\<open>True\<close>, construction yields the object and raises nothing; nothing outside the
  object is written. When it returns \<^verbatim>\<open>False\<close>, construction raises \<^verbatim>\<open>DSPyAssertionError\<close>
  whose message is the supplied \<^verbatim>\<open>msg\<close> and whose state is the trace of that moment.
\<close>

theorem Assert_init_eager:
  "snd (Assert_init f as kw tr) = [(as, dict_pop kw ''msg'')]
   \<and> (f as (dict_pop kw ''msg'') = Inr (PBool True) \<longrightarrow>
        (\<exists>self. fst (Assert_init f as kw tr) = Inr self))
   \<and> (f as (dict_pop kw ''msg'') = Inr (PBool False) \<longrightarrow> dict_get kw ''msg'' = Some m \<longrightarrow>
        fst (Assert_init f as kw tr) = Inl (DSPyAssertionError m tr))"
  by (simp add: Assert_init_def Assert_call_def kwargs_without_msg Let_def
           split: sum.splits pyval.splits)

text \<open>
  Claim C6, at concrete inputs: a short string passes and the object is built; a long string
  fails with the message \<^verbatim>\<open>too long\<close> and the trace of the moment.
\<close>

theorem Assert_init_eager_witness:
  "short_enough [PStr ''ok''] (dict_pop [(''msg'', PStr ''too long'')] ''msg'') = Inr (PBool True)
   \<and> (\<exists>self. fst (Assert_init short_enough [PStr ''ok''] [(''msg'', PStr ''too long'')]
                     example_trace) = Inr self)
   \<and> short_enough [PStr ''long answer''] (dict_pop [(''msg'', PStr ''too long'')] ''msg'')
        = Inr (PBool False)
   \<and> dict_get [(''msg'', PStr ''too long'')] ''msg'' = Some (PStr ''too long'')
   \<and> fst (Assert_init short_enough [PStr ''long answer''] [(''msg'', PStr ''too long'')]
             example_trace)
        = Inl (DSPyAssertionError (PStr ''too long'') example_trace)"
  using Assert_init_eager[of short_enough "[PStr ''ok'']" "[(''msg'', PStr ''too long'')]"
          example_trace "PStr ''too long''"]
        Assert_init_eager[of short_enough "[PStr ''long answer'']" "[(''msg'', PStr ''too long'')]"
          example_trace "PStr ''too long''"]
  by (simp add: short_enough_def dict_pop_def dict_get_def)

text \<open>
  Claim C10. The outcome of constructing an \<^verbatim>\<open>Assert\<close> is what the predicate returns on the
  positional arguments as given and on the keyword arguments from which every \<^verbatim>\<open>msg\<close> entry
  is removed, the other entries unchanged and in their order: its exception when it raises
  one, the object when it returns \<^verbatim>\<open>True\<close>, the assertion failure when it returns \<^verbatim>\<open>False\<close>,
  \<^verbatim>\<open>ValueError\<close> otherwise; what the predicate would do on keyword arguments that contain
  \<^verbatim>\<open>msg\<close> has no bearing on it. The object keeps the same arguments. The message of the
  object and of the failure is the \<^verbatim>\<open>msg\<close> keyword when there is one and the empty string
  when there is none.
\<close>

theorem Assert_init_msg_keyword:
  "fst (Assert_init f as kw tr) =
     (case f as (filter (\<lambda>(k, v). k \<noteq> ''msg'') kw) of
        Inl e \<Rightarrow> Inl e
      | Inr v \<Rightarrow>
          if v = PBool True then
            Inr \<lparr>assert_fun = f, args = as,
                 msg = (case dict_get kw ''msg'' of Some m \<Rightarrow> m | None \<Rightarrow> PStr ''''),
                 kwargs = filter (\<lambda>(k, v). k \<noteq> ''msg'') kw\<rparr>
          else if v = PBool False then
            Inl (DSPyAssertionError
                   (case dict_get kw ''msg'' of Some m \<Rightarrow> m | None \<Rightarrow> PStr '''') tr)
          else Inl (ValueError ''Assertion function should always return [bool]''))
   \<and> snd (Assert_init f as kw tr) = [(as, filter (\<lambda>(k, v). k \<noteq> ''msg'') kw)]
   \<and> ''msg'' \<notin> set (dict_keys (filter (\<lambda>(k, v). k \<noteq> ''msg'') kw))
   \<and> (\<forall>k. k \<noteq> ''msg'' \<longrightarrow> dict_get (filter (\<lambda>(k, v). k \<noteq> ''msg'') kw) k = dict_get kw k)
   \<and> (\<forall>self. fst (Assert_init f as kw tr) = Inr self \<longrightarrow>
          args self = as \<and> kwargs self = filter (\<lambda>(k, v). k \<noteq> ''msg'') kw)
   \<and> (''msg'' \<notin> set (dict_keys kw) \<longrightarrow>
          (f as kw = Inr (PBool False) \<longrightarrow>
             fst (Assert_init f as kw tr) = Inl (DSPyAssertionError (PStr '''') tr))
        \<and> (\<forall>self. fst (Assert_init f as kw tr) = Inr self \<longrightarrow> msg self = PStr ''''))"
proof -
  let ?kw' = "dict_pop kw ''msg''"
  have absent: "dict_get kw ''msg'' = None" if "''msg'' \<notin> set (dict_keys kw)"
    using that by (simp add: dict_get_def dict_keys_def map_of_eq_None_iff)
  have same: "?kw' = kw" if "''msg'' \<notin> set (dict_keys kw)"
    using that by (rule dict_pop_absent)
  have outcome: "fst (Assert_init f as kw tr) =
     (case f as ?kw' of
        Inl e \<Rightarrow> Inl e
      | Inr v \<Rightarrow>
          if v = PBool True then
            Inr \<lparr>assert_fun = f, args = as,
                 msg = (case dict_get kw ''msg'' of Some m \<Rightarrow> m | None \<Rightarrow> PStr ''''),
                 kwargs = ?kw'\<rparr>
          else if v = PBool False then
            Inl (DSPyAssertionError
                   (case dict_get kw ''msg'' of Some m \<Rightarrow> m | None \<Rightarrow> PStr '''') tr)
          else Inl (ValueError ''Assertion function should always return [bool]''))"
    by (auto simp: Assert_init_def Assert_call_def kwargs_without_msg Let_def
             split: sum.splits pyval.splits)
  have other: "\<forall>k. k \<noteq> ''msg'' \<longrightarrow> dict_get ?kw' k = dict_get kw k"
    by (simp add: dict_get_pop_other)
  have gone: "''msg'' \<notin> set (dict_keys ?kw')"
    by (auto simp: dict_pop_def dict_keys_def)
  have obj: "\<forall>self. fst (Assert_init f as kw tr) = Inr self \<longrightarrow>
          args self = as \<and> kwargs self = ?kw'"
    unfolding outcome by (auto split: sum.splits if_splits)
  have default: "(f as kw = Inr (PBool False) \<longrightarrow>
             fst (Assert_init f as kw tr) = Inl (DSPyAssertionError (PStr '''') tr))
        \<and> (\<forall>self. fst (Assert_init f as kw tr) = Inr self \<longrightarrow> msg self = PStr '''')"
    if "''msg'' \<notin> set (dict_keys kw)"
    unfolding outcome using absent[OF that] same[OF that]
    by (auto split: sum.splits if_splits)
  have passed: "snd (Assert_init f as kw tr) = [(as, ?kw')]"
    by (simp add: Assert_init_def Assert_call_def kwargs_without_msg Let_def
             split: sum.splits pyval.splits)
  show ?thesis
    using outcome other gone obj default passed unfolding dict_pop_def by blast
qed

text \<open>
  Claim C10, at concrete inputs. The predicate \<open>within_limit\<close> raises \<^verbatim>\<open>TypeError\<close> when it is
  handed \<^verbatim>\<open>msg\<close>; constructed with \<^verbatim>\<open>limit\<close> and \<^verbatim>\<open>msg\<close>, the \<^verbatim>\<open>Assert\<close> does not raise it but
  fails with the message for the limit 3 and is built for the limit 20, with \<^verbatim>\<open>limit\<close> as
  its only keyword argument; with no \<^verbatim>\<open>msg\<close> the failure carries the empty string.
\<close>

theorem Assert_init_msg_keyword_witness:
  "within_limit [PStr ''long answer''] [(''limit'', PInt 3), (''msg'', PStr ''too long'')]
     = Inl (OtherException ''TypeError'')
   \<and> fst (Assert_init within_limit [PStr ''long answer'']
            [(''limit'', PInt 3), (''msg'', PStr ''too long'')] example_trace)
     = Inl (DSPyAssertionError (PStr ''too long'') example_trace)
   \<and> fst (Assert_init within_limit [PStr ''long answer'']
            [(''msg'', PStr ''too long''), (''limit'', PInt 20)] example_trace)
     = Inr \<lparr>assert_fun = within_limit, args = [PStr ''long answer''], msg = PStr ''too long'',
            kwargs = [(''limit'', PInt 20)]\<rparr>
   \<and> ''msg'' \<notin> set (dict_keys [(''limit'', PInt 3)])
   \<and> within_limit [PStr ''long answer''] [(''limit'', PInt 3)] = Inr (PBool False)
   \<and> fst (Assert_init within_limit [PStr ''long answer''] [(''limit'', PInt 3)] example_trace)
       = Inl (DSPyAssertionError (PStr '''') example_trace)"
  using Assert_init_msg_keyword[of within_limit "[PStr ''long answer'']"
          "[(''limit'', PInt 3), (''msg'', PStr ''too long'')]" example_trace]
        Assert_init_msg_keyword[of within_limit "[PStr ''long answer'']"
          "[(''msg'', PStr ''too long''), (''limit'', PInt 20)]" example_trace]
        Assert_init_msg_keyword[of within_limit "[PStr ''long answer'']"
          "[(''limit'', PInt 3)]" example_trace]
  by (simp add: within_limit_def dict_keys_def dict_get_def)


section \<open>Reverting a contract\<close>

text \<open>
  Claim C9. Reverting a stage's contract twice with the same field names gives the same stage
  as reverting it once, and reverting with names the contract does not have leaves the stage
  as it is. The operation has no failure: \<^verbatim>\<open>pop(key, None)\<close> never raises.
\<close>

theorem revert_predictor_signature_idempotent:
  "revert_predictor_signature (revert_predictor_signature p ks) ks
     = revert_predictor_signature p ks
   \<and> (set ks \<inter> set (dict_keys (sig_kwargs (extended_signature p))) = {} \<longrightarrow>
        revert_predictor_signature p ks = p)"
proof -
  have absent: "filter (\<lambda>(k, v). k \<notin> set ks) d = d"
    if "set ks \<inter> set (dict_keys d) = {}" for d :: "(string, field) dict"
    using that by (induction d) (auto simp: dict_keys_def)
  show ?thesis
    by (auto simp: revert_predictor_signature_def Template_def foldl_dict_pop_filter absent)
qed

text \<open>
  Claim C9, at concrete inputs: a contract without a \<^verbatim>\<open>feedback\<close> field is left as it is, and
  a contract with one is the same after one revert and after two.
\<close>

theorem revert_predictor_signature_idempotent_witness:
  "set [''feedback''] \<inter> set (dict_keys (sig_kwargs (extended_signature (stages fresh_world 1))))
     = {}
   \<and> revert_predictor_signature (stages fresh_world 1) [''feedback''] = stages fresh_world 1
   \<and> revert_predictor_signature
        (revert_predictor_signature (stages clash_world 1) [''feedback'']) [''feedback'']
       = revert_predictor_signature (stages clash_world 1) [''feedback'']"
  using revert_predictor_signature_idempotent[of "stages fresh_world 1" "[''feedback'']"]
        revert_predictor_signature_idempotent[of "stages clash_world 1" "[''feedback'']"]
  by (simp add: fresh_world_def qa_contract_def Template_def dict_keys_def)


section \<open>Exceptions other than the assertion failure\<close>

text \<open>
  Claim C7. When the predicate returns a value that is not a boolean, constructing the
  \<^verbatim>\<open>Assert\<close> raises \<^verbatim>\<open>ValueError\<close>, which is not a \<^verbatim>\<open>DSPyAssertionError\<close>. Under each of the
  four policies, an invocation of the wrapped function that raises a \<^verbatim>\<open>ValueError\<close> is the
  last invocation of the run, the orchestrated call raises that same exception, and the
  invocations made are those of the attempts \<open>0 .. i\<close>: none follows it.
\<close>

theorem invalid_assertion_not_retried:
  "(f as (dict_pop kw ''msg'') = Inr v \<longrightarrow> (\<forall>b. v \<noteq> PBool b) \<longrightarrow>
      fst (Assert_init f as kw tr)
        = Inl (ValueError ''Assertion function should always return [bool]'') \<and>
      (\<forall>m t. fst (Assert_init f as kw tr) \<noteq> Inl (DSPyAssertionError m t)))
   \<and> (orchestrate pol mb func w = (res, w', ev) \<longrightarrow>
        (i, Inl (ValueError s)) \<in> set (calls ev) \<longrightarrow>
          res = Inl (ValueError s) \<and> last (calls ev) = (i, Inl (ValueError s)) \<and>
          length (calls ev) = i + 1)"
proof -
  have a: "fst (Assert_init f as kw tr)
             = Inl (ValueError ''Assertion function should always return [bool]'') \<and>
           (\<forall>m t. fst (Assert_init f as kw tr) \<noteq> Inl (DSPyAssertionError m t))"
    if "f as (dict_pop kw ''msg'') = Inr v" "\<forall>b. v \<noteq> PBool b"
    using that
    by (cases v) (auto simp: Assert_init_def Assert_call_def Let_def kwargs_without_msg)
  have b: "res = Inl (ValueError s) \<and> last (calls ev) = (i, Inl (ValueError s)) \<and>
           length (calls ev) = i + 1"
    if run: "orchestrate pol mb func w = (res, w', ev)"
      and c: "(i, Inl (ValueError s)) \<in> set (calls ev)"
  proof -
    have log: "retry_log (py_range (mb + 1)) (calls ev) res"
      by (rule orchestrate_log[OF run])
    have st: "res = Inl (ValueError s) \<and> last (calls ev) = (i, Inl (ValueError s))"
      using retry_log_stop[OF log c] by simp
    moreover have "length (calls ev) = i + 1"
      using retry_log_count[of "nat (mb + 1)" "calls ev" res i "Inl (ValueError s)"] log c st
      by (simp add: py_range_def)
    ultimately show ?thesis by simp
  qed
  from a b show ?thesis by blast
qed

text \<open>
  Claim C7, at concrete inputs: under the feedback policy with \<open>max_backtracks = 2\<close>, a
  pipeline whose predicate returns the number 7 on attempt 1 makes two invocations and the
  call raises the \<^verbatim>\<open>ValueError\<close>; attempt 2 is never made.
\<close>

theorem invalid_assertion_not_retried_witness:
  "short_enough [PInt 7] (dict_pop [(''msg'', PStr ''too long'')] ''msg'') = Inr (PInt 7)
   \<and> fst (Assert_init short_enough [PInt 7] [(''msg'', PStr ''too long'')] example_trace)
        = Inl (ValueError ''Assertion function should always return [bool]'')
   \<and> (1, Inl (ValueError ''Assertion function should always return [bool]''))
        \<in> set (calls (snd (snd (orchestrate Targeted_feedback 2 fails_then_invalid fresh_world))))
   \<and> fst (orchestrate Targeted_feedback 2 fails_then_invalid fresh_world)
        = Inl (ValueError ''Assertion function should always return [bool]'')
   \<and> length (calls (snd (snd (orchestrate Targeted_feedback 2 fails_then_invalid fresh_world))))
        = 2"
proof -
  let ?run = "orchestrate Targeted_feedback 2 fails_then_invalid fresh_world"
  have run: "?run = (fst ?run, fst (snd ?run), snd (snd ?run))"
    by simp
  have mem: "(1, Inl (ValueError ''Assertion function should always return [bool]''))
        \<in> set (calls (snd (snd ?run)))"
    by (simp add: run_defs fails_then_invalid_def Assert_init_def Assert_call_def
          short_enough_def)
  have pred: "short_enough [PInt 7] (dict_pop [(''msg'', PStr ''too long'')] ''msg'')
        = Inr (PInt 7)"
    by (simp add: short_enough_def)
  show ?thesis
    using invalid_assertion_not_retried[of short_enough "[PInt 7]"
            "[(''msg'', PStr ''too long'')]" "PInt 7" example_trace Targeted_feedback 2
            fails_then_invalid fresh_world "fst ?run" "fst (snd ?run)" "snd (snd ?run)"
            1 "''Assertion function should always return [bool]''"]
          run mem pred
    by simp
qed


section \<open>Restoring, and where it is missed\<close>

text \<open>With \<open>max_backtracks \<ge> 1\<close> the loop has the attempts 0 and 1 at least.\<close>

lemma py_range_two: "1 \<le> mb \<Longrightarrow> \<exists>rest. py_range (mb + 1) = 0 # 1 # rest"
proof -
  assume "1 \<le> mb"
  then have "2 \<le> nat (mb + 1)" by simp
  then obtain n where n: "nat (mb + 1) = Suc (Suc n)"
    by (metis Suc_le_D numeral_2_eq_2 Suc_le_mono)
  show ?thesis by (simp add: py_range_def n upt_rec)
qed

text \<open>
  Policy 2: whenever attempt 0 fails its assertion with an empty trace and a retry is
  allowed, the call raises \<^verbatim>\<open>UnboundLocalError\<close> after that one invocation.
\<close>

lemma assert_update_transform_unbound:
  assumes "1 \<le> mb" and "func 0 w = (Inl (DSPyAssertionError m s), [])"
  shows "assert_update_transform mb func w =
           (Inl (UnboundLocalError ''backtrack_to''), w\<lparr>settings_trace := []\<rparr>,
            [Call 0 (Inl (DSPyAssertionError m s)), Print_msg m, Print_unreachable])"
proof -
  obtain rest where r: "py_range (mb + 1) = 0 # 1 # rest" using py_range_two[OF assms(1)] by blast
  show ?thesis
    using assms(2) by (simp add: assert_update_transform_def r except_prints_def)
qed

text \<open>
  Policy 4: when the block before an attempt runs a second time for the same stage, what it
  saves as the original entry point is the wrapper installed by the first.
\<close>

lemma feedback_rewind_twice_saves_wrapper:
  assumes "0 < i" "0 < j" "backtrack_to st = Some p"
    and "feedback_rewind i st w = (st1, w1, ev1)"
    and "feedback_rewind j (st1\<lparr>error_msg := m\<rparr>) w1 = (st2, w2, ev2)"
  shows "dict_get (extended_predictors_to_original_forward st2) p
           = Some (NewForward [(''feedback'', error_msg st)] (forward (stages w p)))"
  using assms
  by (auto simp: feedback_rewind_def Let_def dict_get_set_same wrap_forward_with_set_fields_def
        extend_predictor_signature_def)

text \<open>Policy 4: an exception that leaves the loop leaves the world as the loop left it.\<close>

lemma feedback_exception_skips_revert:
  "feedback_loop func (py_range (mb + 1))
      \<lparr>backtrack_to = None, error_msg = PNone, result = PNone,
       extended_predictors_to_original_forward = []\<rparr> w = (Some e, st, w', ev) \<Longrightarrow>
   assert_latest_feedback_transform mb func w = (Inl e, w', ev)"
  by (simp add: assert_latest_feedback_transform_def)

text \<open>
  Policy 4, one failure followed by a return: when the blamed stage has distinct field names,
  none of them \<^verbatim>\<open>feedback\<close>, and its contract lists input fields before output fields and
  nothing else, every stage is after the call what it was before.
\<close>

lemma feedback_single_blame_restores:
  assumes mb: "1 \<le> mb"
    and a0: "func 0 w = (Inl (DSPyAssertionError m s), tr)"
    and tr: "tr \<noteq> []" "fst (last tr) = p"
    and a1: "\<And>w1. func 1 w1 = (Inr r, tr')"
    and dist: "distinct (dict_keys (sig_kwargs (extended_signature (stages w p))))"
    and fresh: "''feedback'' \<notin> set (dict_keys (sig_kwargs (extended_signature (stages w p))))"
    and shape: "sig_kwargs (extended_signature (stages w p)) =
           filter (\<lambda>(k, v). is_InputField v) (sig_kwargs (extended_signature (stages w p)))
           @ filter (\<lambda>(k, v). is_DspType v \<or> is_OutputField v)
               (sig_kwargs (extended_signature (stages w p)))"
  shows "fst (assert_latest_feedback_transform mb func w) = Inr r
       \<and> stages (fst (snd (assert_latest_feedback_transform mb func w))) = stages w"
proof -
  obtain rest where r: "py_range (mb + 1) = 0 # 1 # rest" using py_range_two[OF mb] by blast
  let ?c = "sig_kwargs (extended_signature (stages w p))"
  let ?ins = "filter (\<lambda>(k, v). is_InputField v) ?c"
  let ?outs = "filter (\<lambda>(k, v). is_DspType v \<or> is_OutputField v) ?c"
  let ?p' = "extend_predictor_signature (stages w p) [(''feedback'', feedback)]"
  have ext: "sig_kwargs (extended_signature ?p') = ?ins @ [(''feedback'', feedback)] @ ?outs"
    by (rule extend_predictor_signature_fresh[OF dist fresh])
  have instr: "instructions (extended_signature ?p') = instructions (extended_signature (stages w p))"
    by (simp add: extend_predictor_signature_def Let_def Template_def)
  have rest_p: "forward ?p' = forward (stages w p)" "config ?p' = config (stages w p)"
    by (simp_all add: extend_predictor_signature_def Let_def)
  have nin: "''feedback'' \<notin> fst ` set ?ins" "''feedback'' \<notin> fst ` set ?outs"
    using fresh by (auto simp: dict_keys_def)
  have pop: "dict_pop (?ins @ (''feedback'', feedback) # ?outs) ''feedback'' = ?ins @ ?outs"
    using nin dict_pop_absent[of "''feedback''" ?ins] dict_pop_absent[of "''feedback''" ?outs]
    by (simp add: dict_pop_def dict_keys_def)
  have restored: "revert_predictor_signature (wrap_forward_with_set_fields ?p' [(''feedback'', m)]) [''feedback'']
                \<lparr>forward := forward (stages w p)\<rparr> = stages w p"
  proof -
    have c_eq: "?ins @ ?outs = ?c" using shape by simp
    have "revert_predictor_signature (wrap_forward_with_set_fields ?p' [(''feedback'', m)]) [''feedback'']
                \<lparr>forward := forward (stages w p)\<rparr>
          = (stages w p)\<lparr>extended_signature := \<lparr>instructions = instructions (extended_signature (stages w p)),
                                   sig_kwargs = ?c\<rparr>\<rparr>"
      by (simp add: revert_predictor_signature_def wrap_forward_with_set_fields_def ext instr pop
            Template_def c_eq)
         (simp add: extend_predictor_signature_def Let_def)
    then show ?thesis by simp
  qed
  show ?thesis
    using a0 a1 tr restored
    by (simp add: assert_latest_feedback_transform_def r feedback_rewind_def blame_def Let_def)
qed


section \<open>Runs that break a promise of the spec\<close>

text \<open>
  Claim C1, at a run where it fails. Feedback policy, \<open>max_backtracks = 2\<close>; attempts 0 and 1
  fail with stage 1 last in the trace, attempt 2 returns. Before attempt 2 line 222 stores
  the entry point of stage 1 again, which by then is the wrapper installed before attempt 1,
  and so overwrites the saved bound method. After the call the contract of stage 1 is the
  original one, but its entry point is the wrapper of attempt 1, which still supplies the
  first failure message; stage 1 is reverted once.
\<close>

theorem feedback_twice_blamed_forward_not_restored:
  "case assert_latest_feedback_transform 2 fails_twice fresh_world of
     (r, w, ev) \<Rightarrow>
       r = Inr (PStr ''b'') \<and>
       extended_signature (stages w 1) = extended_signature (stages fresh_world 1) \<and>
       forward (stages fresh_world 1) = BoundForward 1 \<and>
       forward (stages w 1) = NewForward [(''feedback'', PStr ''too long'')] (BoundForward 1) \<and>
       ev = [Call 0 (Inl (DSPyAssertionError (PStr ''too long'') example_trace)),
             Print_msg (PStr ''too long''), Print_rewinding 1,
             Call 1 (Inl (DSPyAssertionError (PStr ''still too long'') example_trace)),
             Print_msg (PStr ''still too long''), Print_rewinding 1,
             Call 2 (Inr (PStr ''b'')), Print_reverting 1]"
  by (simp add: run_defs fails_twice_def)

text \<open>
  Claim C2, at a run where it fails. Feedback policy, \<open>max_backtracks = 1\<close>; attempt 0 fails
  with stage 1 last in the trace, attempt 1 raises a \<^verbatim>\<open>KeyError\<close>. The exception leaves
  \<^verbatim>\<open>inner\<close> from line 235, the revert block at lines 249-256 is not run, and stage 1 keeps the
  feedback field and the wrapped entry point.
\<close>

theorem feedback_not_reverted_on_other_exception:
  "case assert_latest_feedback_transform 1 fails_then_crashes fresh_world of
     (r, w, ev) \<Rightarrow>
       r = Inl (OtherException ''KeyError'') \<and>
       sig_kwargs (extended_signature (stages w 1)) =
         [(''question'', InputField ''Question:'' ''the question''),
          (''feedback'', InputField ''Instruction:'' ''Some instructions you must satisfy''),
          (''answer'', OutputField ''Answer:'' ''the answer'')] \<and>
       sig_kwargs (extended_signature (stages fresh_world 1)) =
         [(''question'', InputField ''Question:'' ''the question''),
          (''answer'', OutputField ''Answer:'' ''the answer'')] \<and>
       forward (stages w 1) = NewForward [(''feedback'', PStr ''too long'')] (BoundForward 1) \<and>
       forward (stages fresh_world 1) = BoundForward 1 \<and>
       ev = [Call 0 (Inl (DSPyAssertionError (PStr ''too long'') example_trace)),
             Print_msg (PStr ''too long''), Print_rewinding 1,
             Call 1 (Inl (OtherException ''KeyError''))]"
  by (simp add: run_defs fails_then_crashes_def)

text \<open>
  Claim C3, at a run where it fails. Global perturbation, \<open>max_backtracks = 2\<close>; every
  attempt would fail its assertion with an empty trace. After attempt 0 the local
  \<^verbatim>\<open>backtrack_to\<close> is still unbound, line 85 reads it before attempt 1, and the call raises
  \<^verbatim>\<open>UnboundLocalError\<close> after one invocation instead of returning \<^verbatim>\<open>None\<close> after three.
\<close>

theorem update_transform_exhaustion_raises:
  "case assert_update_transform 2 always_fails_without_trace fresh_world of
     (r, w, ev) \<Rightarrow>
       r = Inl (UnboundLocalError ''backtrack_to'') \<and>
       calls ev = [(0, Inl (DSPyAssertionError (PStr ''too long'') []))] \<and>
       ev = [Call 0 (Inl (DSPyAssertionError (PStr ''too long'') [])),
             Print_msg (PStr ''too long''), Print_unreachable]"
  by (simp add: run_defs always_fails_without_trace_def)

text \<open>
  Claim C4, at a run where it fails. Global perturbation, \<open>max_backtracks = 1\<close>; attempt 0
  fails its assertion with an empty trace and attempt 1 would return. The empty trace is
  printed as unreachable, then line 85 reads the unbound \<^verbatim>\<open>backtrack_to\<close>: the call raises
  \<^verbatim>\<open>UnboundLocalError\<close> and attempt 1 is never made.
\<close>

theorem update_transform_empty_trace_is_fatal:
  "case assert_update_transform 1 fails_once_without_trace fresh_world of
     (r, w, ev) \<Rightarrow>
       r = Inl (UnboundLocalError ''backtrack_to'') \<and>
       fails_once_without_trace 1 w = (Inr (PStr ''b''), [(0, PStr ''q'', PStr ''b'')]) \<and>
       ev = [Call 0 (Inl (DSPyAssertionError (PStr ''too long'') [])),
             Print_msg (PStr ''too long''), Print_unreachable]"
  by (simp add: run_defs fails_once_without_trace_def)


section \<open>Targeted perturbation\<close>

text \<open>
  After a failed attempt the loop of policy 3 goes on with the blame of the \<^verbatim>\<open>except\<close> block;
  the next attempt starts with \<open>latest_rewind\<close> for that blame.
\<close>

lemma assert_latest_loop_after_failure:
  "latest_rewind i bt w = (w1, ev1) \<Longrightarrow> func i w1 = (Inl (DSPyAssertionError m s), tr) \<Longrightarrow>
   assert_latest_loop func (i # is) bt w =
     (case assert_latest_loop func is (blame bt tr) (w1\<lparr>settings_trace := tr\<rparr>) of
        (res, w', ev) \<Rightarrow>
          (res, w', ev1 @ Call i (Inl (DSPyAssertionError m s)) # except_prints m tr @ ev))"
  by simp

text \<open>
  The first invocation that the loop of policy 3 makes is the attempt at the head of its
  indices, in the world that \<open>latest_rewind\<close> leaves.
\<close>

lemma assert_latest_loop_first_call:
  "\<exists>rest. calls (snd (snd (assert_latest_loop func (j # is) bt w)))
            = (j, fst (func j (fst (latest_rewind j bt w)))) # rest"
proof -
  obtain w1 ev1 where rw: "latest_rewind j bt w = (w1, ev1)"
    by (cases "latest_rewind j bt w") auto
  have c1: "calls ev1 = []" using rw by simp
  show ?thesis
    using rw c1 by (auto split: prod.splits sum.splits exc.splits)
qed

text \<open>
  What the block before a retry attempt changes: the temperature of the blamed stage, and
  nothing else.
\<close>

lemma latest_rewind_effect:
  assumes "0 < j"
  shows "settings_trace (fst (latest_rewind j b w)) = settings_trace w
       \<and> settings_lm (fst (latest_rewind j b w)) = settings_lm w
       \<and> (case b of
             None \<Rightarrow> stages (fst (latest_rewind j b w)) = stages w
           | Some p \<Rightarrow>
               dict_get (config (stages (fst (latest_rewind j b w)) p)) ''temperature''
                 = Some (latest_temperature j)
             \<and> (\<forall>k. k \<noteq> ''temperature'' \<longrightarrow>
                    dict_get (config (stages (fst (latest_rewind j b w)) p)) k
                      = dict_get (config (stages w p)) k)
             \<and> extended_signature (stages (fst (latest_rewind j b w)) p)
                 = extended_signature (stages w p)
             \<and> forward (stages (fst (latest_rewind j b w)) p) = forward (stages w p)
             \<and> (\<forall>q. q \<noteq> p \<longrightarrow> stages (fst (latest_rewind j b w)) q = stages w q))"
  using assms
  by (auto simp: latest_rewind_def Let_def update_config_def get_config_def
        dict_get_set_same dict_get_set_other split: option.splits)

text \<open>
  Claim C5, at a run where it fails. Targeted perturbation, \<open>max_backtracks = 2\<close>; attempt 0
  fails with stage 1 last in the trace, attempt 1 fails with an empty trace. The empty trace
  is printed as unreachable and \<^verbatim>\<open>backtrack_to\<close> keeps stage 1, so before attempt 2 the
  temperature of stage 1 is set again, to the double \<^verbatim>\<open>0.7 + 0.001 * 2\<close>: the attempt after the
  empty trace is not a blind retry.
\<close>

theorem latest_transform_empty_trace_perturbs_again:
  "fst (assert_latest_transform 2 fails_then_fails_without_trace fresh_world) = Inr (PStr ''b'')
   \<and> config (stages (fst (snd (assert_latest_transform 2 fails_then_fails_without_trace
                                    fresh_world))) 1)
       = [(''temperature'', latest_temperature 2)]
   \<and> snd (snd (assert_latest_transform 2 fails_then_fails_without_trace fresh_world))
       = [Call 0 (Inl (DSPyAssertionError (PStr ''too long'') example_trace)),
          Print_msg (PStr ''too long''),
          Print_rewinding 1, Print_prev_temp 1 (PStr ''default''),
          Print_new_temp 1 (latest_temperature 1),
          Call 1 (Inl (DSPyAssertionError (PStr ''still too long'') [])),
          Print_msg (PStr ''still too long''), Print_unreachable,
          Print_rewinding 1, Print_prev_temp 1 (latest_temperature 1),
          Print_new_temp 1 (latest_temperature 2),
          Call 2 (Inr (PStr ''b''))]"
  by (simp add: run_defs fails_then_fails_without_trace_def latest_temperature_def)

text \<open>
  Claim C5, amended. Let the loop of policy 3 stand before attempt \<open>i\<close> with the blame
  \<open>bt\<close>, let attempt \<open>i\<close> fail its assertion and leave the trace \<open>tr\<close>, and let \<open>j > 0\<close> be the
  next index. The loop goes on from \<open>j\<close> with the blame \<open>b\<close>: the stage of the last entry of
  \<open>tr\<close> when \<open>tr\<close> is not empty, and \<open>bt\<close>, the blame held before, when \<open>tr\<close> is empty. The
  next invocation of the wrapped function is attempt \<open>j\<close>, and it is made in a world \<open>w2\<close>
  of which this holds: with a blamed stage, the temperature of that stage is the double
  \<^verbatim>\<open>0.7 + 0.001 * j\<close>, its other configuration entries, its contract and its entry point are
  as attempt \<open>i\<close> found them, and every other stage is as attempt \<open>i\<close> found it; with no
  blame, every stage is as attempt \<open>i\<close> found it.
\<close>

theorem assert_latest_loop_perturbs_blamed_stage_only:
  assumes wi: "wi = fst (latest_rewind i bt w)"
    and fail: "func i wi = (Inl (DSPyAssertionError m s), tr)"
    and j: "0 < j"
    and b: "b = (if tr \<noteq> [] then Some (fst (last tr)) else bt)"
  shows "assert_latest_loop func (i # j # js) bt w =
           (case assert_latest_loop func (j # js) b (wi\<lparr>settings_trace := tr\<rparr>) of
              (res, w', ev) \<Rightarrow>
                (res, w', snd (latest_rewind i bt w)
                          @ Call i (Inl (DSPyAssertionError m s)) # except_prints m tr @ ev))
       \<and> (\<exists>w2 rest.
            calls (snd (snd (assert_latest_loop func (i # j # js) bt w)))
              = (i, Inl (DSPyAssertionError m s)) # (j, fst (func j w2)) # rest
          \<and> settings_trace w2 = tr \<and> settings_lm w2 = settings_lm wi
          \<and> (case b of
               None \<Rightarrow> stages w2 = stages wi
             | Some p \<Rightarrow>
                 dict_get (config (stages w2 p)) ''temperature'' = Some (latest_temperature j)
               \<and> (\<forall>k. k \<noteq> ''temperature'' \<longrightarrow>
                      dict_get (config (stages w2 p)) k = dict_get (config (stages wi p)) k)
               \<and> extended_signature (stages w2 p) = extended_signature (stages wi p)
               \<and> forward (stages w2 p) = forward (stages wi p)
               \<and> (\<forall>q. q \<noteq> p \<longrightarrow> stages w2 q = stages wi q)))"
proof -
  let ?wi' = "wi\<lparr>settings_trace := tr\<rparr>"
  let ?w2 = "fst (latest_rewind j b ?wi')"
  obtain ev1 where rw: "latest_rewind i bt w = (wi, ev1)"
    using wi by (cases "latest_rewind i bt w") auto
  have c1: "calls ev1 = []" using rw by simp
  have step: "assert_latest_loop func (i # j # js) bt w =
           (case assert_latest_loop func (j # js) b ?wi' of
              (res, w', ev) \<Rightarrow>
                (res, w', ev1 @ Call i (Inl (DSPyAssertionError m s)) # except_prints m tr @ ev))"
    using rw fail b by (simp add: blame_def)
  obtain rest where first:
    "calls (snd (snd (assert_latest_loop func (j # js) b ?wi'))) = (j, fst (func j ?w2)) # rest"
    using assert_latest_loop_first_call[of func j js b ?wi'] by blast
  have log: "calls (snd (snd (assert_latest_loop func (i # j # js) bt w)))
               = (i, Inl (DSPyAssertionError m s)) # (j, fst (func j ?w2)) # rest"
  proof -
    obtain res w' ev where inner: "assert_latest_loop func (j # js) b ?wi' = (res, w', ev)"
      by (cases "assert_latest_loop func (j # js) b ?wi'") auto
    have "calls ev = (j, fst (func j ?w2)) # rest" using first inner by simp
    then show ?thesis unfolding step inner using c1 by simp
  qed
  have eff: "settings_trace ?w2 = tr \<and> settings_lm ?w2 = settings_lm wi
          \<and> (case b of
               None \<Rightarrow> stages ?w2 = stages wi
             | Some p \<Rightarrow>
                 dict_get (config (stages ?w2 p)) ''temperature'' = Some (latest_temperature j)
               \<and> (\<forall>k. k \<noteq> ''temperature'' \<longrightarrow>
                      dict_get (config (stages ?w2 p)) k = dict_get (config (stages wi p)) k)
               \<and> extended_signature (stages ?w2 p) = extended_signature (stages wi p)
               \<and> forward (stages ?w2 p) = forward (stages wi p)
               \<and> (\<forall>q. q \<noteq> p \<longrightarrow> stages ?w2 q = stages wi q))"
    using latest_rewind_effect[OF j, of b ?wi'] by (simp split: option.splits)
  have "\<exists>w2 rest.
            calls (snd (snd (assert_latest_loop func (i # j # js) bt w)))
              = (i, Inl (DSPyAssertionError m s)) # (j, fst (func j w2)) # rest
          \<and> settings_trace w2 = tr \<and> settings_lm w2 = settings_lm wi
          \<and> (case b of
               None \<Rightarrow> stages w2 = stages wi
             | Some p \<Rightarrow>
                 dict_get (config (stages w2 p)) ''temperature'' = Some (latest_temperature j)
               \<and> (\<forall>k. k \<noteq> ''temperature'' \<longrightarrow>
                      dict_get (config (stages w2 p)) k = dict_get (config (stages wi p)) k)
               \<and> extended_signature (stages w2 p) = extended_signature (stages wi p)
               \<and> forward (stages w2 p) = forward (stages wi p)
               \<and> (\<forall>q. q \<noteq> p \<longrightarrow> stages w2 q = stages wi q))"
    using log eff by blast
  moreover have "snd (latest_rewind i bt w) = ev1" using rw by simp
  ultimately show ?thesis using step by simp
qed

text \<open>
  Claim C5, amended, at concrete inputs, with the pipeline that records the temperatures it
  finds. From the blame on stage 0: attempt 1 finds stage 0 perturbed and its trace ends
  with stage 1; attempt 2 leaves an empty trace; attempt 3 finds stage 0 as before and
  stage 1 at the temperature for attempt 3. From the blame on stage 1 and an empty trace:
  attempt 3 finds stage 1 perturbed again. With no blame and an empty trace the stages are
  unchanged.
\<close>

theorem assert_latest_loop_perturbs_blamed_stage_only_witness:
  "(0::nat) < 2
   \<and> reports_temperatures 1 (fst (latest_rewind 1 (Some 0) fresh_world))
       = (Inl (DSPyAssertionError (PStr ''too long'')
                [(0, latest_temperature 1, PStr ''a''), (1, PStr ''default'', PStr ''b'')]),
          [(0, latest_temperature 1, PStr ''a''), (1, PStr ''default'', PStr ''b'')])
   \<and> calls (snd (snd (assert_latest_loop reports_temperatures [1, 2, 3] (Some 0) fresh_world)))
       = [(1, Inl (DSPyAssertionError (PStr ''too long'')
                [(0, latest_temperature 1, PStr ''a''), (1, PStr ''default'', PStr ''b'')])),
          (2, Inl (DSPyAssertionError (PStr ''too long'') [])),
          (3, Inl (DSPyAssertionError (PStr ''too long'')
                [(0, latest_temperature 1, PStr ''a''), (1, latest_temperature 3, PStr ''b'')]))]
   \<and> (0::nat) < 3
   \<and> reports_temperatures 2 (fst (latest_rewind 2 (Some 1) fresh_world))
       = (Inl (DSPyAssertionError (PStr ''too long'') []), [])
   \<and> calls (snd (snd (assert_latest_loop reports_temperatures [2, 3] (Some 1) fresh_world)))
       = [(2, Inl (DSPyAssertionError (PStr ''too long'') [])),
          (3, Inl (DSPyAssertionError (PStr ''too long'')
                [(0, PStr ''default'', PStr ''a''), (1, latest_temperature 3, PStr ''b'')]))]
   \<and> (0::nat) < 1
   \<and> always_fails_without_trace 0 (fst (latest_rewind 0 None fresh_world))
       = (Inl (DSPyAssertionError (PStr ''too long'') []), [])
   \<and> stages (fst (snd (assert_latest_loop always_fails_without_trace [0, 1] None fresh_world)))
       = stages fresh_world"
proof -
  have a: "reports_temperatures 1 (fst (latest_rewind 1 (Some 0) fresh_world))
       = (Inl (DSPyAssertionError (PStr ''too long'')
                [(0, latest_temperature 1, PStr ''a''), (1, PStr ''default'', PStr ''b'')]),
          [(0, latest_temperature 1, PStr ''a''), (1, PStr ''default'', PStr ''b'')])"
    by (simp add: run_defs temperature_seen_def reports_temperatures_def)
  have b: "reports_temperatures 2 (fst (latest_rewind 2 (Some 1) fresh_world))
       = (Inl (DSPyAssertionError (PStr ''too long'') []), [])"
    by (simp add: reports_temperatures_def)
  have c: "always_fails_without_trace 0 (fst (latest_rewind 0 None fresh_world))
       = (Inl (DSPyAssertionError (PStr ''too long'') []), [])"
    by (simp add: always_fails_without_trace_def)
  note t1 = assert_latest_loop_perturbs_blamed_stage_only[where i = 1 and j = 2 and js = "[3]"
      and bt = "Some 0" and w = fresh_world and func = reports_temperatures and b = "Some 1"
      and wi = "fst (latest_rewind 1 (Some 0) fresh_world)" and m = "PStr ''too long''"
      and s = "[(0, latest_temperature 1, PStr ''a''), (1, PStr ''default'', PStr ''b'')]"
      and tr = "[(0, latest_temperature 1, PStr ''a''), (1, PStr ''default'', PStr ''b'')]"]
  note t2 = assert_latest_loop_perturbs_blamed_stage_only[where i = 2 and j = 3 and js = "[]"
      and bt = "Some 1" and w = fresh_world and func = reports_temperatures and b = "Some 1"
      and wi = "fst (latest_rewind 2 (Some 1) fresh_world)" and m = "PStr ''too long''"
      and s = "[]" and tr = "[]"]
  note t3 = assert_latest_loop_perturbs_blamed_stage_only[where i = 0 and j = 1 and js = "[]"
      and bt = None and w = fresh_world and func = always_fails_without_trace and b = None
      and wi = "fst (latest_rewind 0 None fresh_world)" and m = "PStr ''too long''"
      and s = "[]" and tr = "[]"]
  have r1: "calls (snd (snd (assert_latest_loop reports_temperatures [1, 2, 3] (Some 0) fresh_world)))
       = [(1, Inl (DSPyAssertionError (PStr ''too long'')
                [(0, latest_temperature 1, PStr ''a''), (1, PStr ''default'', PStr ''b'')])),
          (2, Inl (DSPyAssertionError (PStr ''too long'') [])),
          (3, Inl (DSPyAssertionError (PStr ''too long'')
                [(0, latest_temperature 1, PStr ''a''), (1, latest_temperature 3, PStr ''b'')]))]"
    by (simp add: run_defs temperature_seen_def reports_temperatures_def calls_def)
  have r2: "calls (snd (snd (assert_latest_loop reports_temperatures [2, 3] (Some 1) fresh_world)))
       = [(2, Inl (DSPyAssertionError (PStr ''too long'') [])),
          (3, Inl (DSPyAssertionError (PStr ''too long'')
                [(0, PStr ''default'', PStr ''a''), (1, latest_temperature 3, PStr ''b'')]))]"
    by (simp add: run_defs temperature_seen_def reports_temperatures_def calls_def)
  have r3: "stages (fst (snd (assert_latest_loop always_fails_without_trace [0, 1] None fresh_world)))
       = stages fresh_world"
    by (simp add: run_defs always_fails_without_trace_def)
  show ?thesis
    using t1 t2 t3 a b c r1 r2 r3 by simp
qed


section \<open>Targeted feedback injection\<close>

text \<open>
  After a failed attempt the loop of policy 4 goes on with the newest message and the blame
  of the \<^verbatim>\<open>except\<close> block; the next attempt starts with \<open>feedback_rewind\<close> for that state.
\<close>

lemma feedback_loop_after_failure:
  "feedback_rewind i st w = (st1, w1, ev1) \<Longrightarrow>
   func i w1 = (Inl (DSPyAssertionError m s), tr) \<Longrightarrow>
   feedback_loop func (i # is) st w =
     (case feedback_loop func is
             (st1\<lparr>error_msg := m, backtrack_to := blame (backtrack_to st1) tr\<rparr>)
             (w1\<lparr>settings_trace := tr\<rparr>) of
        (x, st', w', ev) \<Rightarrow>
          (x, st', w', ev1 @ Call i (Inl (DSPyAssertionError m s)) # except_prints m tr @ ev))"
  by simp

text \<open>
  What the block before a retry attempt does to the blamed stage, for the state that the
  \<^verbatim>\<open>except\<close> block leaves.
\<close>

lemma feedback_rewind_effect:
  assumes "0 < i"
    and "blame (backtrack_to st0) tr = Some p"
    and "distinct (dict_keys (sig_kwargs (extended_signature (stages w p))))"
  shows "case feedback_rewind i
               (st0\<lparr>error_msg := m, backtrack_to := blame (backtrack_to st0) tr\<rparr>) w of
     (st', w', ev) \<Rightarrow>
       (let c = sig_kwargs (extended_signature (stages w p));
            c' = sig_kwargs (extended_signature (stages w' p))
        in (\<forall>k v. dict_get c k = Some v \<longrightarrow> is_OutputField v \<or> is_DspType v \<longrightarrow>
                   dict_get c' k = Some v)
         \<and> (\<forall>k v. dict_get c k = Some v \<longrightarrow> is_InputField v \<longrightarrow> k \<noteq> ''feedback'' \<longrightarrow>
                   dict_get c' k = Some v)
         \<and> ((\<forall>v. dict_get c ''feedback'' = Some v \<longrightarrow> \<not> (is_OutputField v \<or> is_DspType v)) \<longrightarrow>
               dict_get c' ''feedback'' = Some feedback)
         \<and> (''feedback'' \<notin> set (dict_keys c) \<longrightarrow>
               c' = filter (\<lambda>(k, v). is_InputField v) c @ [(''feedback'', feedback)]
                    @ filter (\<lambda>(k, v). is_DspType v \<or> is_OutputField v) c)
         \<and> forward (stages w' p) = NewForward [(''feedback'', m)] (forward (stages w p))
         \<and> (\<forall>run kw. call_forward run (forward (stages w' p)) kw =
                call_forward run (forward (stages w p)) (dict_setdefault kw ''feedback'' m))
         \<and> (\<forall>kw. dict_get (call_forward (\<lambda>s a. a) (forward (stages w' p)) kw) ''feedback'' =
                Some (case dict_get kw ''feedback'' of Some x \<Rightarrow> x | None \<Rightarrow> m))
         \<and> instructions (extended_signature (stages w' p))
              = instructions (extended_signature (stages w p))
         \<and> config (stages w' p) = config (stages w p)
         \<and> (\<forall>q. q \<noteq> p \<longrightarrow> stages w' q = stages w q))"
proof -
  let ?c = "sig_kwargs (extended_signature (stages w p))"
  let ?p' = "extend_predictor_signature (stages w p) [(''feedback'', feedback)]"
  let ?c' = "sig_kwargs (extended_signature ?p')"
  note lk = extend_lookup[OF assms(3), of feedback]
  have rw: "feedback_rewind i
              (st0\<lparr>error_msg := m, backtrack_to := blame (backtrack_to st0) tr\<rparr>) w =
     (st0\<lparr>error_msg := m, backtrack_to := Some p,
          extended_predictors_to_original_forward :=
            dict_set (extended_predictors_to_original_forward st0) p (forward (stages w p))\<rparr>,
      w\<lparr>stages := (stages w)(p := wrap_forward_with_set_fields ?p' [(''feedback'', m)])\<rparr>,
      [Print_rewinding p])"
    using assms(1,2) by (simp add: feedback_rewind_def Let_def)
  have sig: "sig_kwargs (extended_signature
                (wrap_forward_with_set_fields ?p' [(''feedback'', m)])) = ?c'"
    by (simp add: wrap_forward_with_set_fields_def)
  have fw: "forward (wrap_forward_with_set_fields ?p' [(''feedback'', m)])
             = NewForward [(''feedback'', m)] (forward (stages w p))"
    by (simp add: wrap_forward_with_set_fields_def extend_predictor_signature_def Let_def)
  have a: "\<forall>k v. dict_get ?c k = Some v \<longrightarrow> is_OutputField v \<or> is_DspType v \<longrightarrow>
             dict_get ?c' k = Some v"
    by (auto simp: lk)
  have b: "\<forall>k v. dict_get ?c k = Some v \<longrightarrow> is_InputField v \<longrightarrow> k \<noteq> ''feedback'' \<longrightarrow>
             dict_get ?c' k = Some v"
    by (auto simp: lk)
  have c: "(\<forall>v. dict_get ?c ''feedback'' = Some v \<longrightarrow> \<not> (is_OutputField v \<or> is_DspType v)) \<longrightarrow>
               dict_get ?c' ''feedback'' = Some feedback"
    by (auto simp: lk split: option.splits)
  have d: "?c' = filter (\<lambda>(k, v). is_InputField v) ?c @ [(''feedback'', feedback)]
                    @ filter (\<lambda>(k, v). is_DspType v \<or> is_OutputField v) ?c"
    if fresh: "''feedback'' \<notin> set (dict_keys ?c)"
    by (rule extend_predictor_signature_fresh[OF assms(3) fresh])
  have e: "\<forall>run kw. call_forward run (NewForward [(''feedback'', m)] (forward (stages w p))) kw =
                call_forward run (forward (stages w p)) (dict_setdefault kw ''feedback'' m)"
    by simp
  have f: "\<forall>kw. dict_get (call_forward (\<lambda>s a. a)
                   (NewForward [(''feedback'', m)] (forward (stages w p))) kw) ''feedback'' =
                Some (case dict_get kw ''feedback'' of Some x \<Rightarrow> x | None \<Rightarrow> m)"
    by (simp add: call_forward_keep[OF dict_get_setdefault])
  have g: "instructions (extended_signature (wrap_forward_with_set_fields ?p' [(''feedback'', m)]))
             = instructions (extended_signature (stages w p))"
    "config (wrap_forward_with_set_fields ?p' [(''feedback'', m)]) = config (stages w p)"
    by (simp_all add: wrap_forward_with_set_fields_def extend_predictor_signature_def Let_def
          Template_def)
  show ?thesis
    unfolding rw using a b c d e f g by (simp add: Let_def sig fw)
qed

lemma feedback_rewind_backtrack_to:
  "feedback_rewind i st w = (st1, w1, ev1) \<Longrightarrow> backtrack_to st1 = backtrack_to st"
  by (auto simp: feedback_rewind_def Let_def split: option.splits if_splits)

text \<open>
  The first invocation that the loop of policy 4 makes is the attempt at the head of its
  indices, in the world that \<open>feedback_rewind\<close> leaves.
\<close>

lemma feedback_loop_first_call:
  "\<exists>rest. calls (snd (snd (snd (feedback_loop func (j # is) st w))))
            = (j, fst (func j (fst (snd (feedback_rewind j st w))))) # rest"
proof -
  obtain st1 w1 ev1 where rw: "feedback_rewind j st w = (st1, w1, ev1)"
    by (cases "feedback_rewind j st w") auto
  have c1: "calls ev1 = []" using rw by simp
  show ?thesis
    using rw c1 by (auto split: prod.splits sum.splits exc.splits)
qed

text \<open>
  Claim C8, at an input where it fails. The blamed stage already has an input field named
  \<^verbatim>\<open>feedback\<close>, with the prefix \<^verbatim>\<open>Hint:\<close>. Before the retry attempt, line 175 assigns the new
  field to the same key: the existing input field is replaced, not preserved, and the
  pipeline finds the prefix \<^verbatim>\<open>Instruction:\<close> under that name on attempt 1.
\<close>

theorem feedback_rewind_replaces_field_named_feedback:
  "sig_kwargs (extended_signature (stages clash_world 1)) =
     [(''feedback'', InputField ''Hint:'' ''a hint''),
      (''answer'', OutputField ''Answer:'' ''the answer'')]
   \<and> sig_kwargs (extended_signature (stages (fst (snd
         (feedback_rewind 1 \<lparr>backtrack_to = Some 1, error_msg = PStr ''too long'',
                             result = PNone, extended_predictors_to_original_forward = []\<rparr>
            clash_world))) 1)) =
     [(''feedback'', InputField ''Instruction:'' ''Some instructions you must satisfy''),
      (''answer'', OutputField ''Answer:'' ''the answer'')]
   \<and> reports_feedback_field 1 clash_world = (Inr (PStr ''Hint:''), example_trace)
   \<and> fst (assert_latest_feedback_transform 1 reports_feedback_field clash_world)
       = Inr (PStr ''Instruction:'')"
  by (simp add: run_defs reports_feedback_field_def)

text \<open>
  Claim C8, amended. Let the loop of policy 4 stand before attempt \<open>i\<close>, let attempt \<open>i\<close>
  fail its assertion with the message \<open>m\<close> and leave the trace \<open>tr\<close>, let \<open>p\<close> be the blamed
  stage (the stage of the last entry of \<open>tr\<close>, or the stage blamed before when \<open>tr\<close> is
  empty), let the field names of its contract be distinct, and let \<open>j > 0\<close> be the next
  index. The next invocation of the wrapped function is attempt \<open>j\<close>, and it is made in a
  world \<open>w2\<close> of which this holds, compared with the world attempt \<open>i\<close> ran in:
  every output field (\<^verbatim>\<open>dspy.OutputField\<close> or \<^verbatim>\<open>dsp.Type\<close>) of the contract of \<open>p\<close> is kept under
  its name; every input field whose name is not \<^verbatim>\<open>feedback\<close> is kept under its name; the name
  \<^verbatim>\<open>feedback\<close> holds the new input field unless an output field has that name; when no field
  is named \<^verbatim>\<open>feedback\<close> the new contract is the input fields in their order, the new field,
  and the output fields in their order.
  The entry point of \<open>p\<close> is a wrapper around the former one that sets the keyword
  \<^verbatim>\<open>feedback\<close> to \<open>m\<close>, the message of the failure just caught, when the caller does not pass
  it, and changes no other keyword; the value that reaches the stage's own method is the
  caller's when passed, and \<open>m\<close> otherwise, whatever older wrappers lie in between. The
  instructions and the configuration of \<open>p\<close> and every other stage are unchanged.
\<close>

theorem feedback_loop_extends_and_wraps:
  assumes wi: "wi = fst (snd (feedback_rewind i st w))"
    and fail: "func i wi = (Inl (DSPyAssertionError m s), tr)"
    and j: "0 < j"
    and p: "(if tr \<noteq> [] then Some (fst (last tr)) else backtrack_to st) = Some p"
    and dist: "distinct (dict_keys (sig_kwargs (extended_signature (stages wi p))))"
  shows "\<exists>w2 rest.
      calls (snd (snd (snd (feedback_loop func (i # j # js) st w))))
        = (i, Inl (DSPyAssertionError m s)) # (j, fst (func j w2)) # rest
    \<and> (let c = sig_kwargs (extended_signature (stages wi p));
            c' = sig_kwargs (extended_signature (stages w2 p))
        in (\<forall>k v. dict_get c k = Some v \<longrightarrow> is_OutputField v \<or> is_DspType v \<longrightarrow>
                   dict_get c' k = Some v)
         \<and> (\<forall>k v. dict_get c k = Some v \<longrightarrow> is_InputField v \<longrightarrow> k \<noteq> ''feedback'' \<longrightarrow>
                   dict_get c' k = Some v)
         \<and> ((\<forall>v. dict_get c ''feedback'' = Some v \<longrightarrow> \<not> (is_OutputField v \<or> is_DspType v)) \<longrightarrow>
               dict_get c' ''feedback'' = Some feedback)
         \<and> (''feedback'' \<notin> set (dict_keys c) \<longrightarrow>
               c' = filter (\<lambda>(k, v). is_InputField v) c @ [(''feedback'', feedback)]
                    @ filter (\<lambda>(k, v). is_DspType v \<or> is_OutputField v) c)
         \<and> forward (stages w2 p) = NewForward [(''feedback'', m)] (forward (stages wi p))
         \<and> (\<forall>run kw. call_forward run (forward (stages w2 p)) kw =
                call_forward run (forward (stages wi p)) (dict_setdefault kw ''feedback'' m))
         \<and> (\<forall>kw. dict_get (call_forward (\<lambda>s a. a) (forward (stages w2 p)) kw) ''feedback'' =
                Some (case dict_get kw ''feedback'' of Some x \<Rightarrow> x | None \<Rightarrow> m))
         \<and> instructions (extended_signature (stages w2 p))
              = instructions (extended_signature (stages wi p))
         \<and> config (stages w2 p) = config (stages wi p)
         \<and> (\<forall>q. q \<noteq> p \<longrightarrow> stages w2 q = stages wi q))"
proof -
  obtain st1 ev1 where rw: "feedback_rewind i st w = (st1, wi, ev1)"
    using wi by (cases "feedback_rewind i st w") auto
  have c1: "calls ev1 = []" using rw by simp
  have bt: "backtrack_to st1 = backtrack_to st" by (rule feedback_rewind_backtrack_to[OF rw])
  let ?st' = "st1\<lparr>error_msg := m, backtrack_to := blame (backtrack_to st1) tr\<rparr>"
  let ?wi' = "wi\<lparr>settings_trace := tr\<rparr>"
  let ?w2 = "fst (snd (feedback_rewind j ?st' ?wi'))"
  have blamed: "blame (backtrack_to st1) tr = Some p" using p bt by (simp add: blame_def)
  have step: "feedback_loop func (i # j # js) st w =
     (case feedback_loop func (j # js) ?st' ?wi' of
        (x, st', w', ev) \<Rightarrow>
          (x, st', w', ev1 @ Call i (Inl (DSPyAssertionError m s)) # except_prints m tr @ ev))"
    using rw fail by simp
  obtain rest where first:
    "calls (snd (snd (snd (feedback_loop func (j # js) ?st' ?wi')))) = (j, fst (func j ?w2)) # rest"
    using feedback_loop_first_call[of func j js ?st' ?wi'] by blast
  have log: "calls (snd (snd (snd (feedback_loop func (i # j # js) st w))))
               = (i, Inl (DSPyAssertionError m s)) # (j, fst (func j ?w2)) # rest"
  proof -
    obtain x st'' w'' ev where inner: "feedback_loop func (j # js) ?st' ?wi' = (x, st'', w'', ev)"
      by (cases "feedback_loop func (j # js) ?st' ?wi'") auto
    have "calls ev = (j, fst (func j ?w2)) # rest" using first inner by simp
    then show ?thesis unfolding step inner using c1 by simp
  qed
  have dist': "distinct (dict_keys (sig_kwargs (extended_signature (stages ?wi' p))))"
    using dist by simp
  have eff: "let c = sig_kwargs (extended_signature (stages wi p));
            c' = sig_kwargs (extended_signature (stages ?w2 p))
        in (\<forall>k v. dict_get c k = Some v \<longrightarrow> is_OutputField v \<or> is_DspType v \<longrightarrow>
                   dict_get c' k = Some v)
         \<and> (\<forall>k v. dict_get c k = Some v \<longrightarrow> is_InputField v \<longrightarrow> k \<noteq> ''feedback'' \<longrightarrow>
                   dict_get c' k = Some v)
         \<and> ((\<forall>v. dict_get c ''feedback'' = Some v \<longrightarrow> \<not> (is_OutputField v \<or> is_DspType v)) \<longrightarrow>
               dict_get c' ''feedback'' = Some feedback)
         \<and> (''feedback'' \<notin> set (dict_keys c) \<longrightarrow>
               c' = filter (\<lambda>(k, v). is_InputField v) c @ [(''feedback'', feedback)]
                    @ filter (\<lambda>(k, v). is_DspType v \<or> is_OutputField v) c)
         \<and> forward (stages ?w2 p) = NewForward [(''feedback'', m)] (forward (stages wi p))
         \<and> (\<forall>run kw. call_forward run (forward (stages ?w2 p)) kw =
                call_forward run (forward (stages wi p)) (dict_setdefault kw ''feedback'' m))
         \<and> (\<forall>kw. dict_get (call_forward (\<lambda>s a. a) (forward (stages ?w2 p)) kw) ''feedback'' =
                Some (case dict_get kw ''feedback'' of Some x \<Rightarrow> x | None \<Rightarrow> m))
         \<and> instructions (extended_signature (stages ?w2 p))
              = instructions (extended_signature (stages wi p))
         \<and> config (stages ?w2 p) = config (stages wi p)
         \<and> (\<forall>q. q \<noteq> p \<longrightarrow> stages ?w2 q = stages wi q)"
    using feedback_rewind_effect[OF j blamed dist', of m]
    by (simp add: Let_def split: prod.splits)
  from log eff show ?thesis by blast
qed

text \<open>
  Claim C8, amended, at concrete inputs, with the pipeline that records the feedback each
  stage receives. At the second retry: stage 1 was blamed for \<^verbatim>\<open>too long\<close> and already has the
  feedback field; attempt 1 finds \<^verbatim>\<open>too long\<close> as the feedback of stage 1 and fails with
  \<^verbatim>\<open>still too long\<close>; attempt 2 finds \<^verbatim>\<open>still too long\<close>. The whole call shows the same from
  attempt 0 on.
\<close>

theorem feedback_loop_extends_and_wraps_witness:
  "(0::nat) < 2
   \<and> reports_feedback 1
         (fst (snd (feedback_rewind 1
            \<lparr>backtrack_to = Some 1, error_msg = PStr ''too long'', result = PNone,
             extended_predictors_to_original_forward = []\<rparr> fresh_world)))
       = (Inl (DSPyAssertionError (PStr ''still too long'')
                [(0, PNone, PStr ''a''), (1, PStr ''too long'', PStr ''b'')]),
          [(0, PNone, PStr ''a''), (1, PStr ''too long'', PStr ''b'')])
   \<and> sig_kwargs (extended_signature (stages
         (fst (snd (feedback_rewind 1
            \<lparr>backtrack_to = Some 1, error_msg = PStr ''too long'', result = PNone,
             extended_predictors_to_original_forward = []\<rparr> fresh_world))) 1))
       = [(''question'', InputField ''Question:'' ''the question''),
          (''feedback'', feedback),
          (''answer'', OutputField ''Answer:'' ''the answer'')]
   \<and> calls (snd (snd (snd (feedback_loop reports_feedback [1, 2]
            \<lparr>backtrack_to = Some 1, error_msg = PStr ''too long'', result = PNone,
             extended_predictors_to_original_forward = []\<rparr> fresh_world))))
       = [(1, Inl (DSPyAssertionError (PStr ''still too long'')
                [(0, PNone, PStr ''a''), (1, PStr ''too long'', PStr ''b'')])),
          (2, Inl (DSPyAssertionError (PStr ''much too long'')
                [(0, PNone, PStr ''a''), (1, PStr ''still too long'', PStr ''b'')]))]
   \<and> calls (snd (snd (assert_latest_feedback_transform 2 reports_feedback fresh_world)))
       = [(0, Inl (DSPyAssertionError (PStr ''too long'')
                [(0, PNone, PStr ''a''), (1, PNone, PStr ''b'')])),
          (1, Inl (DSPyAssertionError (PStr ''still too long'')
                [(0, PNone, PStr ''a''), (1, PStr ''too long'', PStr ''b'')])),
          (2, Inl (DSPyAssertionError (PStr ''much too long'')
                [(0, PNone, PStr ''a''), (1, PStr ''still too long'', PStr ''b'')]))]"
proof -
  let ?st = "\<lparr>backtrack_to = Some 1, error_msg = PStr ''too long'', result = PNone,
             extended_predictors_to_original_forward = []\<rparr>"
  let ?wi = "fst (snd (feedback_rewind 1 ?st fresh_world))"
  let ?tr = "[(0, PNone, PStr ''a''), (1, PStr ''too long'', PStr ''b'')]"
  have a: "reports_feedback 1 ?wi = (Inl (DSPyAssertionError (PStr ''still too long'') ?tr), ?tr)"
    by (simp add: run_defs feedback_seen_def reports_feedback_def dict_setdefault_def dict_keys_def)
  have c: "sig_kwargs (extended_signature (stages ?wi 1))
       = [(''question'', InputField ''Question:'' ''the question''),
          (''feedback'', feedback),
          (''answer'', OutputField ''Answer:'' ''the answer'')]"
    by (simp add: run_defs)
  have d: "distinct (dict_keys (sig_kwargs (extended_signature (stages ?wi 1))))"
    unfolding c by (simp add: dict_keys_def)
  have p: "(if ?tr \<noteq> [] then Some (fst (last ?tr)) else backtrack_to ?st) = Some 1"
    by simp
  note t = feedback_loop_extends_and_wraps[where i = 1 and j = 2 and js = "[]" and st = ?st
      and w = fresh_world and func = reports_feedback and wi = ?wi
      and m = "PStr ''still too long''" and s = ?tr and tr = ?tr and p = 1, OF refl a _ p d]
  have r1: "calls (snd (snd (snd (feedback_loop reports_feedback [1, 2] ?st fresh_world))))
       = [(1, Inl (DSPyAssertionError (PStr ''still too long'') ?tr)),
          (2, Inl (DSPyAssertionError (PStr ''much too long'')
                [(0, PNone, PStr ''a''), (1, PStr ''still too long'', PStr ''b'')]))]"
    by (simp add: run_defs feedback_seen_def reports_feedback_def dict_setdefault_def
          dict_keys_def calls_def)
  have r2: "calls (snd (snd (assert_latest_feedback_transform 2 reports_feedback fresh_world)))
       = [(0, Inl (DSPyAssertionError (PStr ''too long'')
                [(0, PNone, PStr ''a''), (1, PNone, PStr ''b'')])),
          (1, Inl (DSPyAssertionError (PStr ''still too long'') ?tr)),
          (2, Inl (DSPyAssertionError (PStr ''much too long'')
                [(0, PNone, PStr ''a''), (1, PStr ''still too long'', PStr ''b'')]))]"
    by (simp add: run_defs feedback_seen_def reports_feedback_def dict_setdefault_def
          dict_keys_def calls_def)
  show ?thesis
    using t a c r1 r2 by simp
qed

end
